theory Spec2Isabelle
  imports
    Complex_Main
    "HOL-Library.AList"
    "HOL-Library.Char_ord"
    "HOL-Library.List_Lexorder"
begin

section \<open>Lead scoring and pricing service: a shallow embedding\<close>

text \<open>
  The development follows the four modules of the ML service:
  \<^verbatim>\<open>config/model_config.py\<close>, \<^verbatim>\<open>utils/feature_engineering.py\<close>,
  \<^verbatim>\<open>models/lead_scorer.py\<close> and \<^verbatim>\<open>services/scoring_service.py\<close>.
  Python floats are modelled as real numbers, dictionaries as association lists in
  insertion order (keys distinct), exceptions as the left summand of a sum type.
\<close>

subsection \<open>Python built-ins used by the code\<close>

text \<open>
  \<^verbatim>\<open>round(x, 2)\<close>: the nearest multiple of 0.01, a tie going to the even
  multiple.
\<close>

definition round_half_even :: "real \<Rightarrow> int" where
  "round_half_even x =
     (let f = \<lfloor>x\<rfloor>; d = x - of_int f
      in if d < 1 / 2 then f
         else if 1 / 2 < d then f + 1
         else if even f then f else f + 1)"

definition py_round2 :: "real \<Rightarrow> real" where
  "py_round2 x = of_int (round_half_even (x * 100)) / 100"

text \<open>\<^verbatim>\<open>d.get(k, default)\<close> on a dictionary.\<close>

definition dict_get :: "('k \<times> 'v) list \<Rightarrow> 'k \<Rightarrow> 'v \<Rightarrow> 'v" where
  "dict_get d k dflt = (case map_of d k of Some v \<Rightarrow> v | None \<Rightarrow> dflt)"

text \<open>\<^verbatim>\<open>d.update(e)\<close>: existing keys keep their place, new keys are appended.\<close>

definition dict_update :: "('k \<times> 'v) list \<Rightarrow> ('k \<times> 'v) list \<Rightarrow> ('k \<times> 'v) list" where
  "dict_update d e = fold (\<lambda>item. AList.update (fst item) (snd item)) e d"

text \<open>
  \<^verbatim>\<open>float(s)\<close> on a string of decimal digits with at most one decimal point.
  Python's grammar for a float literal has one optional point, so a string with two
  points raises \<^verbatim>\<open>ValueError\<close> (here \<open>None\<close>). Signs, exponents and the
  special values are not needed: the function is applied to a version constant only.
\<close>

definition is_digit :: "char \<Rightarrow> bool" where
  "is_digit c \<longleftrightarrow> CHR ''0'' \<le> c \<and> c \<le> CHR ''9''"

fun split_on :: "char \<Rightarrow> string \<Rightarrow> string list" where
  "split_on sep [] = [[]]"
| "split_on sep (c # cs) =
     (if c = sep then [] # split_on sep cs
      else (case split_on sep cs of
              part # parts \<Rightarrow> (c # part) # parts
            | [] \<Rightarrow> [[c]]))"

definition digits_value :: "string \<Rightarrow> nat" where
  "digits_value ds = foldl (\<lambda>n c. 10 * n + (of_char c - 48)) 0 ds"

definition py_float :: "string \<Rightarrow> real option" where
  "py_float s =
     (case split_on CHR ''.'' s of
        [ipart] \<Rightarrow>
          if ipart \<noteq> [] \<and> list_all is_digit ipart
          then Some (of_nat (digits_value ipart)) else None
      | [ipart, fpart] \<Rightarrow>
          if (ipart \<noteq> [] \<or> fpart \<noteq> []) \<and> list_all is_digit ipart \<and> list_all is_digit fpart
          then Some (of_nat (digits_value ipart) + of_nat (digits_value fpart) / 10 ^ length fpart)
          else None
      | _ \<Rightarrow> None)"

text \<open>\<^verbatim>\<open>os.path.join(a, b)\<close> on POSIX paths.\<close>

definition path_join :: "string \<Rightarrow> string \<Rightarrow> string" where
  "path_join a b =
     (if b \<noteq> [] \<and> hd b = CHR ''/'' then b
      else if a = [] \<or> last a = CHR ''/'' then a @ b
      else a @ ''/'' @ b)"

subsection \<open>Exceptions\<close>

text \<open>
  One constructor per \<^verbatim>\<open>raise\<close> site. In the Python code all of them are
  \<^verbatim>\<open>ValueError\<close> except where noted; a wrapper carries the exception it wraps.
\<close>

datatype error =
    UnsupportedVertical string         \<comment> \<open>"Unsupported insurance vertical"\<close>
  | FloatConversion string             \<comment> \<open>raised by \<^verbatim>\<open>float\<close>\<close>
  | InvalidOverride "string list"      \<comment> \<open>"Invalid configuration keys"\<close>
  | IncompleteConfig                   \<comment> \<open>"Missing required configuration keys"\<close>
  | InvalidValueTypes                  \<comment> \<open>"Invalid configuration value types"\<close>
  | InvalidThreshold                   \<comment> \<open>"Invalid scoring threshold"\<close>
  | PathNotFound string                \<comment> \<open>\<^verbatim>\<open>FileNotFoundError\<close>\<close>
  | PersistenceError                   \<comment> \<open>\<^verbatim>\<open>IOError\<close>, "Failed to persist configuration"\<close>
  | ConfigUpdateFailed error           \<comment> \<open>"Failed to update configuration"\<close>
  | TypeError                          \<comment> \<open>\<^verbatim>\<open>TypeError\<close> or \<^verbatim>\<open>AttributeError\<close> on a value of the wrong kind\<close>
  | KeyError string                    \<comment> \<open>\<^verbatim>\<open>KeyError\<close>\<close>
  | MissingColumns "string list"       \<comment> \<open>"Missing required columns"\<close>
  | OutOfRange string                  \<comment> \<open>"Values below/above ... threshold in column"\<close>
  | EmptyInput                         \<comment> \<open>raised by numpy or scikit-learn on an empty block\<close>
  | EmptyVocabulary                    \<comment> \<open>raised by \<^verbatim>\<open>TfidfVectorizer\<close>\<close>
  | Unmodelled                         \<comment> \<open>input outside the modelled fragment\<close>
  | InvalidScores                      \<comment> \<open>"Importance scores must be between 0 and 1"\<close>
  | InvalidModelType                   \<comment> \<open>"Invalid model type"\<close>
  | LoadFailed                         \<comment> \<open>raised by \<^verbatim>\<open>joblib.load\<close>\<close>
  | ReloadFailed error                 \<comment> \<open>"Model reload failed"\<close>
  | MissingParameters                  \<comment> \<open>"Missing required parameters"\<close>
  | ScoringFailed error                \<comment> \<open>"Lead scoring failed"\<close>
  | External string                    \<comment> \<open>raised by a collaborator outside the modelled code\<close>

subsection \<open>config/model\_config.py\<close>

datatype config_value =
    StrList "string list"
  | NumDict "(string \<times> real) list"
  | StrDict "(string \<times> string) list"
  | Number real
  | Text string

type_synonym config_dict = "(string \<times> config_value) list"

definition DEFAULT_SCORING_THRESHOLD :: real where
  "DEFAULT_SCORING_THRESHOLD = 0.65"

definition CONFIG_VERSION :: string where
  "CONFIG_VERSION = ''1.0.0''"

definition FEATURE_CONFIG :: "(string \<times> config_dict) list" where
  "FEATURE_CONFIG =
     [(''auto'',
        [(''numerical_features'',
            StrList [''age'', ''driving_years'', ''vehicle_age'', ''annual_mileage'']),
         (''categorical_features'',
            StrList [''vehicle_make'', ''vehicle_model'', ''usage_type'', ''coverage_type'']),
         (''text_features'', StrList [''occupation'', ''location'']),
         (''feature_weights'',
            NumDict [(''age'', 0.15), (''driving_years'', 0.2), (''vehicle_age'', 0.1)]),
         (''preprocessing'', StrDict [(''scaling'', ''standard''), (''encoding'', ''label'')])]),
      (''home'',
        [(''numerical_features'',
            StrList [''property_age'', ''square_footage'', ''property_value'']),
         (''categorical_features'',
            StrList [''construction_type'', ''roof_type'', ''property_type'']),
         (''text_features'', StrList [''address'', ''security_features'']),
         (''feature_weights'',
            NumDict [(''property_value'', 0.25), (''property_age'', 0.15)]),
         (''preprocessing'', StrDict [(''scaling'', ''minmax''), (''encoding'', ''onehot'')])])]"

text \<open>
  The instance's cache dictionary holds two kinds of entries: model paths under the keys
  \<^verbatim>\<open>model_path_<version>\<close> and the threshold under \<^verbatim>\<open>scoring_threshold\<close>.
  The two kinds are kept apart here; \<^verbatim>\<open>clear()\<close> empties both.
\<close>

record config_cache =
  model_paths :: "(string \<times> string) list"
  scoring_threshold :: "real option"

definition empty_cache :: config_cache where
  "empty_cache = \<lparr>model_paths = [], scoring_threshold = None\<rparr>"

text \<open>The fields \<^verbatim>\<open>_vertical\<close>, \<^verbatim>\<open>_config\<close>, \<^verbatim>\<open>_cache\<close> (absent when
  caching is disabled) and \<^verbatim>\<open>_version\<close> of a \<^verbatim>\<open>ModelConfig\<close>.\<close>

record model_config =
  mc_vertical :: string
  mc_config :: config_dict
  mc_cache :: "config_cache option"
  mc_version :: real

text \<open>\<^verbatim>\<open>ModelConfig._validate_config_override\<close>.\<close>

definition validate_config_override :: "model_config \<Rightarrow> config_dict \<Rightarrow> error + unit" where
  "validate_config_override self config =
     (case map_of FEATURE_CONFIG (mc_vertical self) of
        None \<Rightarrow> Inl (KeyError (mc_vertical self))
      | Some defaults \<Rightarrow>
          (let allowed_keys = map fst defaults;
               invalid_keys = filter (\<lambda>k. k \<notin> set allowed_keys) (map fst config)
           in if invalid_keys \<noteq> [] then Inl (InvalidOverride invalid_keys) else Inr ()))"

text \<open>\<^verbatim>\<open>ModelConfig._validate_configuration\<close>.\<close>

definition required_keys :: "string list" where
  "required_keys =
     [''numerical_features'', ''categorical_features'', ''text_features'',
      ''feature_weights'', ''preprocessing'']"

fun is_list_or_dict :: "config_value \<Rightarrow> bool" where
  "is_list_or_dict (StrList _) = True"
| "is_list_or_dict (NumDict _) = True"
| "is_list_or_dict (StrDict _) = True"
| "is_list_or_dict (Number _) = False"
| "is_list_or_dict (Text _) = False"

definition validate_configuration :: "model_config \<Rightarrow> error + unit" where
  "validate_configuration self =
     (if \<not> list_all (\<lambda>key. key \<in> set (map fst (mc_config self))) required_keys
      then Inl IncompleteConfig
      else if \<not> list_all (\<lambda>key. case map_of (mc_config self) key of
                                    Some v \<Rightarrow> is_list_or_dict v | None \<Rightarrow> False) required_keys
      then Inl InvalidValueTypes
      else Inr ())"

text \<open>
  \<^verbatim>\<open>ModelConfig.__init__\<close>. An absent or empty override is skipped
  (\<^verbatim>\<open>if config_override:\<close>).
\<close>

definition ModelConfig_init :: "string \<Rightarrow> config_dict option \<Rightarrow> bool \<Rightarrow> error + model_config" where
  "ModelConfig_init vertical config_override enable_caching =
     (case map_of FEATURE_CONFIG vertical of
        None \<Rightarrow> Inl (UnsupportedVertical vertical)
      | Some defaults \<Rightarrow>
          (case py_float CONFIG_VERSION of
             None \<Rightarrow> Inl (FloatConversion CONFIG_VERSION)
           | Some version \<Rightarrow>
               (let self = \<lparr>mc_vertical = vertical, mc_config = defaults,
                            mc_cache = (if enable_caching then Some empty_cache else None),
                            mc_version = version\<rparr>;
                    overridden =
                      (case config_override of
                         None \<Rightarrow> Inr self
                       | Some ov \<Rightarrow>
                           if ov = [] then Inr self
                           else (case validate_config_override self ov of
                                   Inl e \<Rightarrow> Inl e
                                 | Inr _ \<Rightarrow>
                                     Inr (self\<lparr>mc_config := dict_update (mc_config self) ov\<rparr>)))
                in case overridden of
                     Inl e \<Rightarrow> Inl e
                   | Inr self \<Rightarrow>
                       (case validate_configuration self of
                          Inl e \<Rightarrow> Inl e
                        | Inr _ \<Rightarrow> Inr self))))"

text \<open>
  \<^verbatim>\<open>ModelConfig.get_model_path\<close>. \<open>base\<close> is \<^verbatim>\<open>MODEL_BASE_PATH\<close> and
  \<open>exists\<close> is \<^verbatim>\<open>os.path.exists\<close>; the cache key is built from the printed
  version (\<^verbatim>\<open>None\<close> when absent).
\<close>

definition get_model_path ::
  "string \<Rightarrow> (string \<Rightarrow> bool) \<Rightarrow> model_config \<Rightarrow> string option \<Rightarrow> (error + string) \<times> model_config" where
  "get_model_path base exists self model_version =
     (let cache_key = ''model_path_'' @ (case model_version of None \<Rightarrow> ''None'' | Some v \<Rightarrow> v)
      in case (case mc_cache self of
                 Some c \<Rightarrow> map_of (model_paths c) cache_key
               | None \<Rightarrow> None) of
           Some cached \<Rightarrow> (Inr cached, self)
         | None \<Rightarrow>
             (let base_path = path_join base (mc_vertical self);
                  base_path = (case model_version of
                                 None \<Rightarrow> base_path
                               | Some v \<Rightarrow> if v = [] then base_path
                                           else path_join base_path (''v'' @ v))
              in if \<not> exists base_path then (Inl (PathNotFound base_path), self)
                 else (Inr base_path,
                       self\<lparr>mc_cache :=
                         map_option (\<lambda>c. c\<lparr>model_paths :=
                            AList.update cache_key base_path (model_paths c)\<rparr>) (mc_cache self)\<rparr>)))"

text \<open>\<^verbatim>\<open>ModelConfig.get_scoring_threshold\<close>.\<close>

definition get_scoring_threshold :: "model_config \<Rightarrow> (error + real) \<times> model_config" where
  "get_scoring_threshold self =
     (case (case mc_cache self of Some c \<Rightarrow> scoring_threshold c | None \<Rightarrow> None) of
        Some cached \<Rightarrow> (Inr cached, self)
      | None \<Rightarrow>
          (case (case map_of (mc_config self) ''scoring_threshold'' of
                   None \<Rightarrow> Inr DEFAULT_SCORING_THRESHOLD
                 | Some (Number t) \<Rightarrow> Inr t
                 | Some _ \<Rightarrow> Inl TypeError) of
             Inl e \<Rightarrow> (Inl e, self)
           | Inr threshold \<Rightarrow>
               if \<not> (0 \<le> threshold \<and> threshold \<le> 1) then (Inl InvalidThreshold, self)
               else (Inr threshold,
                     self\<lparr>mc_cache :=
                       map_option (\<lambda>c. c\<lparr>scoring_threshold := Some threshold\<rparr>)
                         (mc_cache self)\<rparr>)))"

text \<open>
  \<^verbatim>\<open>ModelConfig._persist_configuration\<close>. \<open>writable\<close> says whether opening the
  file at the given path and dumping the YAML document succeeds.
\<close>

definition persist_configuration ::
  "string \<Rightarrow> (string \<Rightarrow> bool) \<Rightarrow> model_config \<Rightarrow> error + unit" where
  "persist_configuration base writable self =
     (let config_path = path_join (path_join base (mc_vertical self)) ''config.yaml''
      in if writable config_path then Inr () else Inl PersistenceError)"

text \<open>
  \<^verbatim>\<open>ModelConfig.update_config\<close>. The validation runs before the \<^verbatim>\<open>try\<close>
  block; the handler of the block restores \<^verbatim>\<open>self._config\<close> from the backup.
\<close>

definition update_config ::
  "string \<Rightarrow> (string \<Rightarrow> bool) \<Rightarrow> model_config \<Rightarrow> config_dict \<Rightarrow> bool
     \<Rightarrow> (error + bool) \<times> model_config" where
  "update_config base writable self new_config persist =
     (case validate_config_override self new_config of
        Inl e \<Rightarrow> (Inl e, self)
      | Inr _ \<Rightarrow>
          (let old_config = mc_config self;
               self = self\<lparr>mc_config := dict_update (mc_config self) new_config\<rparr>;
               self = self\<lparr>mc_version := mc_version self + 0.1\<rparr>;
               self = self\<lparr>mc_cache := map_option (\<lambda>c. empty_cache) (mc_cache self)\<rparr>
           in if persist then
                (case persist_configuration base writable self of
                   Inl e \<Rightarrow> (Inl (ConfigUpdateFailed e), self\<lparr>mc_config := old_config\<rparr>)
                 | Inr _ \<Rightarrow> (Inr True, self))
              else (Inr True, self)))"

subsection \<open>utils/feature\_engineering.py: strings and library transformers\<close>

text \<open>
  Strings are ASCII. \<open>runs P s\<close> lists the maximal runs of characters of \<open>s\<close> that
  satisfy \<open>P\<close>; \<^verbatim>\<open>s.split()\<close> is the list of runs of non-blank characters.
\<close>

function runs :: "(char \<Rightarrow> bool) \<Rightarrow> string \<Rightarrow> string list" where
  "runs P [] = []"
| "runs P (c # cs) =
     (if P c then (c # takeWhile P cs) # runs P (dropWhile P cs) else runs P cs)"
  by pat_completeness auto
termination
  by (relation "measure (\<lambda>(P, s). length s)")
     (auto simp: length_dropWhile_le less_Suc_eq_le)

definition is_space :: "char \<Rightarrow> bool" where
  "is_space c \<longleftrightarrow>
     c \<in> set [CHR '' '', CHR 0x09, CHR 0x0A, CHR 0x0B, CHR 0x0C, CHR 0x0D,
               CHR 0x1C, CHR 0x1D, CHR 0x1E, CHR 0x1F]"

definition py_split :: "string \<Rightarrow> string list" where
  "py_split s = runs (\<lambda>c. \<not> is_space c) s"

text \<open>\<^verbatim>\<open>sep.join(parts)\<close>.\<close>

fun py_join :: "string \<Rightarrow> string list \<Rightarrow> string" where
  "py_join sep [] = []"
| "py_join sep [part] = part"
| "py_join sep (part # parts) = part @ sep @ py_join sep parts"

definition lower_char :: "char \<Rightarrow> char" where
  "lower_char c =
     (if CHR ''A'' \<le> c \<and> c \<le> CHR ''Z'' then char_of (of_char c + (32::nat)) else c)"

definition py_lower :: "string \<Rightarrow> string" where
  "py_lower s = map lower_char s"

text \<open>\<^verbatim>\<open>s.replace(pat, '')\<close> for a non-empty literal \<open>pat\<close>, scanning left to right.\<close>

function remove_all :: "string \<Rightarrow> string \<Rightarrow> string" where
  "remove_all pat [] = []"
| "remove_all pat (c # cs) =
     (if pat \<noteq> [] \<and> take (length pat) (c # cs) = pat
      then remove_all pat (drop (length pat) (c # cs))
      else c # remove_all pat cs)"
  by pat_completeness auto
termination
  by (relation "measure (\<lambda>(pat, s). length s)") auto

text \<open>
  The cells of a data frame: a number, a string, or a missing value. A frame is the
  list of its named columns, all of the same length; a lead record scored by
  \<^verbatim>\<open>LeadScorer\<close> is a frame with one row.
\<close>

datatype cell = Num real | Str string | NaN

type_synonym series = "cell list"
type_synonym dataframe = "(string \<times> series) list"

text \<open>
  \<^verbatim>\<open>FeatureEngineer._clean_text\<close>: missing values become the empty string, the
  text is lower-cased, and \<^verbatim>\<open>str.replace\<close> (whose \<^verbatim>\<open>regex\<close> argument defaults
  to false from pandas 2.0 on, the version the module imports) removes the occurrences
  of its first argument. A numeric cell in a text column makes the caller raise.
\<close>

definition punctuation_pattern :: string where
  "punctuation_pattern =
     [CHR ''['', CHR ''^'', CHR 0x5C, CHR ''w'', CHR 0x5C, CHR ''s'', CHR '']'']"

fun clean_cell :: "cell \<Rightarrow> error + string" where
  "clean_cell NaN = Inr []"
| "clean_cell (Str s) = Inr (remove_all punctuation_pattern (py_lower s))"
| "clean_cell (Num x) = Inl TypeError"

fun clean_text :: "series \<Rightarrow> error + string list" where
  "clean_text [] = Inr []"
| "clean_text (c # cs) =
     (case clean_cell c of
        Inl e \<Rightarrow> Inl e
      | Inr s \<Rightarrow> (case clean_text cs of Inl e \<Rightarrow> Inl e | Inr ss \<Rightarrow> Inr (s # ss)))"

text \<open>
  The two scikit-learn vectorizers, by the number of columns of the matrix that
  \<^verbatim>\<open>fit_transform\<close> returns. The default analyzer lower-cases a document and takes
  as tokens its runs of two or more word characters.
  \<^verbatim>\<open>HashingVectorizer(n_features=n)\<close> always returns \<open>n\<close> columns.
  \<^verbatim>\<open>TfidfVectorizer(max_features=n)\<close> returns one column per term of the
  vocabulary it learns from the documents, keeping at most the \<open>n\<close> most frequent
  terms, and raises when the vocabulary is empty. The entries of the matrices are
  not modelled.
\<close>

definition is_word_char :: "char \<Rightarrow> bool" where
  "is_word_char c \<longleftrightarrow>
     (CHR ''a'' \<le> c \<and> c \<le> CHR ''z'') \<or> (CHR ''A'' \<le> c \<and> c \<le> CHR ''Z'')
     \<or> (CHR ''0'' \<le> c \<and> c \<le> CHR ''9'') \<or> c = CHR ''_''"

definition sk_tokens :: "string \<Rightarrow> string list" where
  "sk_tokens doc = filter (\<lambda>t. 2 \<le> length t) (runs is_word_char (py_lower doc))"

datatype vectorizer = HashingVectorizer nat | TfidfVectorizer nat

fun fit_transform_width :: "vectorizer \<Rightarrow> string list \<Rightarrow> error + nat" where
  "fit_transform_width (HashingVectorizer n_features) docs = Inr n_features"
| "fit_transform_width (TfidfVectorizer max_features) docs =
     (let vocabulary = remdups (concat (map sk_tokens docs))
      in if vocabulary = [] then Inl EmptyVocabulary
         else Inr (min max_features (length vocabulary)))"

text \<open>
  \<^verbatim>\<open>LabelEncoder\<close>: \<^verbatim>\<open>fit\<close> stores the sorted distinct values as
  \<^verbatim>\<open>classes_\<close>, \<^verbatim>\<open>transform\<close> maps a value to its position among them. An
  encoder that has not been fit has no classes.
\<close>

type_synonym label_encoder = "string list option"

definition index_of :: "'a \<Rightarrow> 'a list \<Rightarrow> nat" where
  "index_of v xs = length (takeWhile (\<lambda>x. x \<noteq> v) xs)"

definition LabelEncoder_fit_transform :: "string list \<Rightarrow> nat list \<times> label_encoder" where
  "LabelEncoder_fit_transform y =
     (let classes = sort (remdups y)
      in (map (\<lambda>v. index_of v classes) y, Some classes))"

text \<open>
  The scalers, applied to one column whose missing values are kept as they are.
  \<^verbatim>\<open>StandardScaler\<close> subtracts the mean and divides by the population standard
  deviation, \<^verbatim>\<open>MinMaxScaler\<close> subtracts the minimum and divides by the range; a
  zero divisor is replaced by 1.
\<close>

definition present :: "real option list \<Rightarrow> real list" where
  "present col = concat (map (\<lambda>c. case c of Some x \<Rightarrow> [x] | None \<Rightarrow> []) col)"

definition mean :: "real list \<Rightarrow> real" where
  "mean xs = sum_list xs / of_nat (length xs)"

definition StandardScaler_fit_transform :: "real option list \<Rightarrow> real option list" where
  "StandardScaler_fit_transform col =
     (let xs = present col;
          m = mean xs;
          scale = sqrt (mean (map (\<lambda>x. (x - m)\<^sup>2) xs));
          scale = (if scale = 0 then 1 else scale)
      in map (map_option (\<lambda>x. (x - m) / scale)) col)"

definition MinMaxScaler_fit_transform :: "real option list \<Rightarrow> real option list" where
  "MinMaxScaler_fit_transform col =
     (let xs = present col
      in if xs = [] then col
         else (let lo = Min (set xs);
                   range = Max (set xs) - lo;
                   range = (if range = 0 then 1 else range)
               in map (map_option (\<lambda>x. (x - lo) / range)) col))"

subsection \<open>utils/feature\_engineering.py: the feature engineer\<close>

text \<open>
  Modelled from the spec: \<^verbatim>\<open>ModelConfig.get_feature_config\<close> and
  \<^verbatim>\<open>ModelConfig.get_cache_config\<close> are called by the constructor and are not
  defined in the sources. The feature configuration is the vertical's three feature-name
  lists and its scaling method, with the optional settings that the code reads through
  \<^verbatim>\<open>.get\<close> with a default; the cache configuration decides \<^verbatim>\<open>_use_cache\<close>.
\<close>

record feature_config =
  numerical_features :: "string list"
  categorical_features :: "string list"
  text_features :: "string list"
  scaling :: string
  min_category_frequency :: "nat option"
  min_values :: "(string \<times> real) list"
  max_values :: "(string \<times> real) list"
  importance_change_threshold :: "real option"

text \<open>
  The instance: its configuration, the per-column transformers it keeps
  (\<^verbatim>\<open>_encoders\<close>, \<^verbatim>\<open>_vectorizers\<close>, \<^verbatim>\<open>_scalers\<close>) and \<^verbatim>\<open>_use_cache\<close>.
  The statistics kept in \<^verbatim>\<open>_feature_stats\<close> are not modelled.
\<close>

datatype scaler = StandardScaler | MinMaxScaler

record feature_engineer =
  fe_feature_config :: feature_config
  fe_encoders :: "(string \<times> label_encoder) list"
  fe_vectorizers :: "(string \<times> vectorizer) list"
  fe_scalers :: "(string \<times> scaler) list"
  fe_use_cache :: bool

text \<open>
  A column of the feature matrix: a scaled numerical column, an encoded categorical
  column, or one component of the vector of a text column.
\<close>

datatype feature_column =
    NumericalColumn string "real option list"
  | CategoricalColumn string "nat list"
  | TextComponent string nat

type_synonym feature_matrix = "feature_column list"

text \<open>The block a column of the feature matrix belongs to, and the column of the
  frame it comes from.\<close>

datatype block = NumericalBlock | CategoricalBlock | TextBlock

fun column_origin :: "feature_column \<Rightarrow> block \<times> string" where
  "column_origin (NumericalColumn name scaled) = (NumericalBlock, name)"
| "column_origin (CategoricalColumn name codes) = (CategoricalBlock, name)"
| "column_origin (TextComponent name i) = (TextBlock, name)"

text \<open>\<^verbatim>\<open>FeatureEngineer._validate_input_data\<close>.\<close>

definition validate_input_data :: "feature_config \<Rightarrow> dataframe \<Rightarrow> error + unit" where
  "validate_input_data cfg data =
     (let required_columns =
            numerical_features cfg @ categorical_features cfg @ text_features cfg;
          missing_columns = filter (\<lambda>c. c \<notin> set (map fst data)) (remdups required_columns)
      in if missing_columns \<noteq> [] then Inl (MissingColumns missing_columns) else Inr ())"

text \<open>\<^verbatim>\<open>lead_data[names]\<close>: the named columns, in the order of the names.\<close>

fun select_columns :: "dataframe \<Rightarrow> string list \<Rightarrow> error + dataframe" where
  "select_columns data [] = Inr []"
| "select_columns data (name # names) =
     (case map_of data name of
        None \<Rightarrow> Inl (KeyError name)
      | Some col \<Rightarrow>
          (case select_columns data names of
             Inl e \<Rightarrow> Inl e
           | Inr cols \<Rightarrow> Inr ((name, col) # cols)))"

text \<open>
  The numbers of a numerical column; a string cell makes the range check raise.
\<close>

fun numeric_cells :: "series \<Rightarrow> error + real option list" where
  "numeric_cells [] = Inr []"
| "numeric_cells (c # cs) =
     (case c of
        Str s \<Rightarrow> Inl TypeError
      | _ \<Rightarrow>
          (case numeric_cells cs of
             Inl e \<Rightarrow> Inl e
           | Inr xs \<Rightarrow> Inr ((case c of Num x \<Rightarrow> Some x | _ \<Rightarrow> None) # xs)))"

text \<open>
  \<^verbatim>\<open>FeatureEngineer._validate_numerical_ranges\<close>, one column: the minimum and the
  maximum skip missing values, and a bound that is not configured never fails.
\<close>

definition validate_column_range :: "feature_config \<Rightarrow> string \<Rightarrow> real option list \<Rightarrow> error + unit" where
  "validate_column_range cfg column col =
     (let xs = present col
      in if xs \<noteq> [] \<and> (case map_of (min_values cfg) column of
                            Some lo \<Rightarrow> Min (set xs) < lo | None \<Rightarrow> False)
         then Inl (OutOfRange column)
         else if xs \<noteq> [] \<and> (case map_of (max_values cfg) column of
                                 Some hi \<Rightarrow> Max (set xs) > hi | None \<Rightarrow> False)
         then Inl (OutOfRange column)
         else Inr ())"

fun validate_numerical_ranges ::
  "feature_config \<Rightarrow> dataframe \<Rightarrow> error + (string \<times> real option list) list" where
  "validate_numerical_ranges cfg [] = Inr []"
| "validate_numerical_ranges cfg ((column, cells) # rest) =
     (case numeric_cells cells of
        Inl e \<Rightarrow> Inl e
      | Inr col \<Rightarrow>
          (case validate_column_range cfg column col of
             Inl e \<Rightarrow> Inl e
           | Inr _ \<Rightarrow>
               (case validate_numerical_ranges cfg rest of
                  Inl e \<Rightarrow> Inl e
                | Inr cols \<Rightarrow> Inr ((column, col) # cols))))"

text \<open>\<^verbatim>\<open>numerical_data.fillna(numerical_data.mean())\<close>, one column.\<close>

definition fillna_mean :: "real option list \<Rightarrow> real option list" where
  "fillna_mean col =
     (let xs = present col
      in if xs = [] then col
         else map (\<lambda>c. case c of None \<Rightarrow> Some (mean xs) | Some x \<Rightarrow> Some x) col)"

text \<open>
  \<^verbatim>\<open>FeatureEngineer.preprocess_numerical\<close>. The scaler is created anew in every
  call and is not stored in \<^verbatim>\<open>_scalers\<close>; scikit-learn rejects a block without
  columns or without rows.
\<close>

definition preprocess_numerical ::
  "feature_config \<Rightarrow> dataframe \<Rightarrow> error + feature_matrix" where
  "preprocess_numerical cfg numerical_data =
     (case validate_numerical_ranges cfg numerical_data of
        Inl e \<Rightarrow> Inl e
      | Inr cols \<Rightarrow>
          (let cols = map (\<lambda>(column, col). (column, fillna_mean col)) cols;
               scaler = (if scaling cfg = ''standard'' then StandardScaler else MinMaxScaler)
           in if cols = [] \<or> snd (hd cols) = [] then Inl EmptyInput
              else Inr (map (\<lambda>(column, col).
                          NumericalColumn column
                            (case scaler of
                               StandardScaler \<Rightarrow> StandardScaler_fit_transform col
                             | MinMaxScaler \<Rightarrow> MinMaxScaler_fit_transform col)) cols)))"

text \<open>
  The values of a categorical column. Categorical cells are strings; numbers and
  missing values in a categorical column are outside the modelled fragment.
\<close>

fun category_cells :: "series \<Rightarrow> error + string list" where
  "category_cells [] = Inr []"
| "category_cells (c # cs) =
     (case c of
        Str s \<Rightarrow> (case category_cells cs of Inl e \<Rightarrow> Inl e | Inr ss \<Rightarrow> Inr (s # ss))
      | _ \<Rightarrow> Inl Unmodelled)"

text \<open>
  The replacement of rare categories: a value whose count in the column is below the
  minimum frequency becomes \<^verbatim>\<open>'Other'\<close>.
\<close>

definition replace_rare :: "nat \<Rightarrow> string list \<Rightarrow> string list" where
  "replace_rare min_frequency column_data =
     map (\<lambda>v. if count_list column_data v < min_frequency then ''Other'' else v) column_data"

text \<open>
  The loop of \<^verbatim>\<open>FeatureEngineer.preprocess_categorical\<close> over the columns. An
  encoder is created for a column that has none; then \<^verbatim>\<open>fit_transform\<close> is
  called on the stored encoder.
\<close>

fun encode_columns ::
  "feature_config \<Rightarrow> dataframe \<Rightarrow> (string \<times> label_encoder) list
     \<Rightarrow> (error + feature_matrix) \<times> (string \<times> label_encoder) list" where
  "encode_columns cfg [] encoders = (Inr [], encoders)"
| "encode_columns cfg ((column, cells) # rest) encoders =
     (case category_cells cells of
        Inl e \<Rightarrow> (Inl e, encoders)
      | Inr values \<Rightarrow>
          (let column_data =
                 replace_rare (case min_category_frequency cfg of Some n \<Rightarrow> n | None \<Rightarrow> 10) values;
               encoders = (if column \<notin> set (map fst encoders)
                           then AList.update column None encoders else encoders);
               (codes, fitted) = LabelEncoder_fit_transform column_data;
               encoders = AList.update column fitted encoders
           in case encode_columns cfg rest encoders of
                (Inl e, encoders) \<Rightarrow> (Inl e, encoders)
              | (Inr encoded, encoders) \<Rightarrow>
                  (Inr (CategoricalColumn column codes # encoded), encoders)))"

definition preprocess_categorical ::
  "feature_config \<Rightarrow> dataframe \<Rightarrow> (string \<times> label_encoder) list
     \<Rightarrow> (error + feature_matrix) \<times> (string \<times> label_encoder) list" where
  "preprocess_categorical cfg categorical_data encoders =
     (case encode_columns cfg categorical_data encoders of
        (Inl e, encoders) \<Rightarrow> (Inl e, encoders)
      | (Inr encoded, encoders) \<Rightarrow>
          if encoded = [] then (Inl EmptyInput, encoders) else (Inr encoded, encoders))"

text \<open>
  The loop of \<^verbatim>\<open>FeatureEngineer.preprocess_text\<close> over the columns: the vectorizer
  is chosen from the number of distinct blank-separated words of the cleaned column,
  stored under the column, and fit on the cleaned column.
\<close>

definition select_vectorizer :: "string list \<Rightarrow> vectorizer" where
  "select_vectorizer cleaned_text =
     (if length (remdups (py_split (py_join '' '' cleaned_text))) > 10000
      then HashingVectorizer 100 else TfidfVectorizer 100)"

fun vectorize_columns ::
  "dataframe \<Rightarrow> (string \<times> vectorizer) list
     \<Rightarrow> (error + feature_matrix) \<times> (string \<times> vectorizer) list" where
  "vectorize_columns [] vectorizers = (Inr [], vectorizers)"
| "vectorize_columns ((column, cells) # rest) vectorizers =
     (case clean_text cells of
        Inl e \<Rightarrow> (Inl e, vectorizers)
      | Inr cleaned_text \<Rightarrow>
          (let vectorizer = select_vectorizer cleaned_text;
               vectorizers = AList.update column vectorizer vectorizers
           in case fit_transform_width vectorizer cleaned_text of
                Inl e \<Rightarrow> (Inl e, vectorizers)
              | Inr width \<Rightarrow>
                  (case vectorize_columns rest vectorizers of
                     (Inl e, vectorizers) \<Rightarrow> (Inl e, vectorizers)
                   | (Inr vectorized, vectorizers) \<Rightarrow>
                       (Inr (map (TextComponent column) [0..<width] @ vectorized),
                        vectorizers))))"

definition preprocess_text ::
  "dataframe \<Rightarrow> (string \<times> vectorizer) list
     \<Rightarrow> (error + feature_matrix) \<times> (string \<times> vectorizer) list" where
  "preprocess_text text_data vectorizers =
     (if text_data = [] then (Inl EmptyInput, vectorizers)
      else vectorize_columns text_data vectorizers)"

text \<open>
  \<^verbatim>\<open>FeatureEngineer._process_feature_group\<close> on the three groups and
  \<^verbatim>\<open>np.hstack\<close> of the results. The three jobs that the code hands to
  \<^verbatim>\<open>joblib.Parallel\<close> are run here one after the other.
\<close>

definition process_feature_groups ::
  "feature_engineer \<Rightarrow> dataframe \<Rightarrow> dataframe \<Rightarrow> dataframe
     \<Rightarrow> (error + feature_matrix) \<times> feature_engineer" where
  "process_feature_groups self numerical_data categorical_data text_data =
     (case preprocess_numerical (fe_feature_config self) numerical_data of
        Inl e \<Rightarrow> (Inl e, self)
      | Inr numerical \<Rightarrow>
          (case preprocess_categorical (fe_feature_config self) categorical_data
                  (fe_encoders self) of
             (Inl e, encoders) \<Rightarrow> (Inl e, self\<lparr>fe_encoders := encoders\<rparr>)
           | (Inr categorical, encoders) \<Rightarrow>
               (let self = self\<lparr>fe_encoders := encoders\<rparr>
                in case preprocess_text text_data (fe_vectorizers self) of
                     (Inl e, vectorizers) \<Rightarrow> (Inl e, self\<lparr>fe_vectorizers := vectorizers\<rparr>)
                   | (Inr text, vectorizers) \<Rightarrow>
                       (Inr (numerical @ categorical @ text),
                        self\<lparr>fe_vectorizers := vectorizers\<rparr>))))"

text \<open>
  \<^verbatim>\<open>FeatureEngineer.transform_features\<close>. The process-wide
  \<^verbatim>\<open>PREPROCESSOR_CACHE\<close> is keyed by a hash of the frame, here by the frame.
  \<^verbatim>\<open>_calculate_feature_importance\<close> returns the empty dictionary, so the
  importance scores are empty whether or not they are requested. The call of
  \<^verbatim>\<open>_update_feature_stats\<close>, a method the sources do not define, is taken to
  leave the result alone.
\<close>

type_synonym importance = "(string \<times> real) list"
type_synonym preprocessor_cache = "(dataframe \<times> feature_matrix \<times> importance) list"

definition transform_features ::
  "feature_engineer \<Rightarrow> preprocessor_cache \<Rightarrow> dataframe \<Rightarrow> bool
     \<Rightarrow> (error + feature_matrix \<times> importance) \<times> feature_engineer \<times> preprocessor_cache" where
  "transform_features self PREPROCESSOR_CACHE lead_data return_importance =
     (let cfg = fe_feature_config self
      in case validate_input_data cfg lead_data of
           Inl e \<Rightarrow> (Inl e, self, PREPROCESSOR_CACHE)
         | Inr _ \<Rightarrow>
             (case (if fe_use_cache self then map_of PREPROCESSOR_CACHE lead_data else None) of
                Some cached \<Rightarrow> (Inr cached, self, PREPROCESSOR_CACHE)
              | None \<Rightarrow>
                  (case (select_columns lead_data (numerical_features cfg),
                         select_columns lead_data (categorical_features cfg),
                         select_columns lead_data (text_features cfg)) of
                     (Inr numerical_data, Inr categorical_data, Inr text_data) \<Rightarrow>
                       (case process_feature_groups self numerical_data categorical_data
                               text_data of
                          (Inl e, self) \<Rightarrow> (Inl e, self, PREPROCESSOR_CACHE)
                        | (Inr combined_features, self) \<Rightarrow>
                            (let importance_scores = [];
                                 PREPROCESSOR_CACHE =
                                   (if fe_use_cache self
                                    then AList.update lead_data
                                           (combined_features, importance_scores)
                                           PREPROCESSOR_CACHE
                                    else PREPROCESSOR_CACHE)
                             in (Inr (combined_features, importance_scores), self,
                                 PREPROCESSOR_CACHE)))
                   | (Inl e, _, _) \<Rightarrow> (Inl e, self, PREPROCESSOR_CACHE)
                   | (_, Inl e, _) \<Rightarrow> (Inl e, self, PREPROCESSOR_CACHE)
                   | (_, _, Inl e) \<Rightarrow> (Inl e, self, PREPROCESSOR_CACHE))))"

text \<open>
  \<^verbatim>\<open>FeatureEngineer._analyze_importance_trends\<close>, given the tracker
  \<^verbatim>\<open>FEATURE_IMPORTANCE\<close> as it is when the method runs. The result lists the
  calls of \<^verbatim>\<open>_trigger_importance_alert\<close>, in order, with their arguments.
\<close>

definition analyze_importance_trends ::
  "feature_config \<Rightarrow> importance \<Rightarrow> importance \<Rightarrow> (string \<times> real) list" where
  "analyze_importance_trends cfg FEATURE_IMPORTANCE new_scores =
     concat (map (\<lambda>(feature, score).
        case map_of FEATURE_IMPORTANCE feature of
          None \<Rightarrow> []
        | Some tracked \<Rightarrow>
            (let change = \<bar>score - tracked\<bar>
             in if change > (case importance_change_threshold cfg of
                               Some t \<Rightarrow> t | None \<Rightarrow> 0.2)
                then [(feature, change)] else [])) new_scores)"

text \<open>
  \<^verbatim>\<open>FeatureEngineer.update_feature_importance\<close> on a dictionary of scores: the
  result, the tracker after the call, and the alerts triggered.
\<close>

definition update_feature_importance ::
  "feature_config \<Rightarrow> importance \<Rightarrow> importance
     \<Rightarrow> (error + bool) \<times> importance \<times> (string \<times> real) list" where
  "update_feature_importance cfg FEATURE_IMPORTANCE importance_scores =
     (if \<not> list_all (\<lambda>score. 0 \<le> score \<and> score \<le> 1) (map snd importance_scores)
      then (Inl InvalidScores, FEATURE_IMPORTANCE, [])
      else (let FEATURE_IMPORTANCE = dict_update FEATURE_IMPORTANCE importance_scores
            in (Inr True, FEATURE_IMPORTANCE,
                analyze_importance_trends cfg FEATURE_IMPORTANCE importance_scores)))"

subsection \<open>models/lead\_scorer.py: pricing and confidence\<close>

definition PRICE_MULTIPLIERS :: "(string \<times> real) list" where
  "PRICE_MULTIPLIERS =
     [(''auto'', 1.0), (''home'', 1.2), (''health'', 1.5),
      (''life'', 1.8), (''renters'', 0.8), (''commercial'', 2.0)]"

definition MARKET_ADJUSTMENTS :: "(string \<times> real) list" where
  "MARKET_ADJUSTMENTS =
     [(''peak_hours'', 1.2), (''off_peak'', 0.9), (''weekend'', 1.1), (''holiday'', 1.3)]"

text \<open>
  The body of the loop over \<^verbatim>\<open>market_conditions.items()\<close> in
  \<^verbatim>\<open>calculate_price\<close>: the value stored under the condition is not read.
\<close>

definition apply_condition :: "string \<times> bool \<Rightarrow> real \<Rightarrow> real" where
  "apply_condition item base_price =
     (case map_of MARKET_ADJUSTMENTS (fst item) of
        Some adjustment \<Rightarrow> base_price * adjustment
      | None \<Rightarrow> base_price)"

text \<open>
  \<^verbatim>\<open>LeadScorer.calculate_price\<close>. The instance contributes its vertical
  (\<^verbatim>\<open>self._config._vertical\<close>); \<open>month\<close> is \<^verbatim>\<open>datetime.now().month\<close>.
\<close>

definition calculate_price :: "string \<Rightarrow> nat \<Rightarrow> real \<Rightarrow> (string \<times> bool) list \<Rightarrow> real" where
  "calculate_price vertical month score market_conditions =
     (let base_price = 50 + score * 100;
          base_price = base_price * dict_get PRICE_MULTIPLIERS vertical 1.0;
          base_price = fold apply_condition market_conditions base_price;
          seasonal_factor = 1 + 0.1 * (if month \<in> set [1, 4, 7, 10] then 1 else 0);
          base_price = base_price * seasonal_factor
      in py_round2 (min (max base_price 25.0) 500.0))"

text \<open>\<^verbatim>\<open>LeadScorer._calculate_confidence\<close>.\<close>

definition calculate_confidence :: "real \<Rightarrow> real" where
  "calculate_confidence score =
     (if score > 0.8 \<or> score < 0.2 then 0.9
      else if 0.4 \<le> score \<and> score \<le> 0.6 then 0.7
      else 0.8)"

text \<open>
  \<^verbatim>\<open>LeadScorer._get_market_conditions\<close>, from the hour and the weekday of the
  call (Monday is 0).
\<close>

definition get_market_conditions :: "nat \<Rightarrow> nat \<Rightarrow> (string \<times> bool) list" where
  "get_market_conditions hour day =
     (if 9 \<le> hour \<and> hour \<le> 17 \<and> day < 5 then [(''peak_hours'', True)]
      else [(''off_peak'', True)])
     @ (if day \<ge> 5 then [(''weekend'', True)] else [])"

subsection \<open>The environment of a scorer and of the service\<close>

text \<open>
  What lies outside the modelled code is supplied by an environment, and every
  property below holds for all environments: the file system, the clock, the loading
  of a model artifact, the feature transformation followed by the model's prediction,
  and the construction of the collaborators of a scorer when a vertical is scored for
  the first time. Modelled from the spec:
  \<^verbatim>\<open>ModelConfig.get_market_adjustments\<close> and
  \<^verbatim>\<open>LeadScorer.get_model_version\<close> are called by the service and are not
  defined in the sources; they are fields of the environment as well. The Prometheus
  counters, gauges and histograms are write-only sinks and are left out.
\<close>

datatype artifact = Booster nat | OtherObject

type_synonym lead_data = "(string \<times> cell) list"

text \<open>The fields of a \<^verbatim>\<open>LeadScorer\<close>; the model is known by a handle.\<close>

record lead_scorer =
  ls_config :: model_config
  ls_model :: "nat option"
  ls_threshold :: "real option"
  ls_enable_monitoring :: bool

type_synonym model_cache = "(string \<times> nat \<times> real) list"

record environment =
  MODEL_BASE_PATH :: string
  path_exists :: "string \<Rightarrow> bool"
  joblib_load :: "string \<Rightarrow> error + artifact"
  clock_now :: real
  clock_month :: nat
  clock_hour :: nat
  clock_weekday :: nat
  new_ModelConfig :: "string \<Rightarrow> error + model_config"
  new_FeatureEngineer :: "string \<Rightarrow> error + unit"
  transform_and_predict :: "lead_scorer \<Rightarrow> lead_data \<Rightarrow> error + real \<times> importance"
  get_market_adjustments :: "model_config \<Rightarrow> error + (string \<times> real) list"
  get_model_version :: "lead_scorer \<Rightarrow> error + string"
  float_of_version :: "string \<Rightarrow> error + real"

subsection \<open>models/lead\_scorer.py: the scorer\<close>

text \<open>
  \<^verbatim>\<open>LeadScorer.reload_model\<close>, with the process-wide \<^verbatim>\<open>MODEL_CACHE\<close>. Every
  exception is wrapped as "Model reload failed"; what was assigned before the exception
  stays assigned.
\<close>

definition reload_model ::
  "environment \<Rightarrow> lead_scorer \<Rightarrow> model_cache \<Rightarrow> (error + bool) \<times> lead_scorer \<times> model_cache" where
  "reload_model env self MODEL_CACHE =
     (case get_model_path (MODEL_BASE_PATH env) (path_exists env) (ls_config self) None of
        (Inl e, config) \<Rightarrow> (Inl (ReloadFailed e), self\<lparr>ls_config := config\<rparr>, MODEL_CACHE)
      | (Inr model_path, config) \<Rightarrow>
          (let self = self\<lparr>ls_config := config\<rparr>
           in case joblib_load env model_path of
                Inl e \<Rightarrow> (Inl (ReloadFailed e), self, MODEL_CACHE)
              | Inr OtherObject \<Rightarrow> (Inl (ReloadFailed InvalidModelType), self, MODEL_CACHE)
              | Inr (Booster new_model) \<Rightarrow>
                  (let self = self\<lparr>ls_model := Some new_model\<rparr>;
                       MODEL_CACHE = AList.update (mc_vertical (ls_config self))
                                       (new_model, clock_now env) MODEL_CACHE
                   in case get_scoring_threshold (ls_config self) of
                        (Inl e, config) \<Rightarrow>
                          (Inl (ReloadFailed e), self\<lparr>ls_config := config\<rparr>, MODEL_CACHE)
                      | (Inr threshold, config) \<Rightarrow>
                          (Inr True,
                           self\<lparr>ls_config := config, ls_threshold := Some threshold\<rparr>,
                           MODEL_CACHE))))"

text \<open>\<^verbatim>\<open>LeadScorer._initialize_model\<close>: a cached model younger than one hour is
  adopted without touching the storage.\<close>

definition initialize_model ::
  "environment \<Rightarrow> lead_scorer \<Rightarrow> model_cache \<Rightarrow> (error + unit) \<times> lead_scorer \<times> model_cache" where
  "initialize_model env self MODEL_CACHE =
     (let vertical = mc_vertical (ls_config self);
          fresh = (case map_of MODEL_CACHE vertical of
                     Some (model, cache_time) \<Rightarrow>
                       if clock_now env - cache_time < 3600 then Some model else None
                   | None \<Rightarrow> None)
      in case fresh of
           Some model \<Rightarrow>
             (let self = self\<lparr>ls_model := Some model\<rparr>
              in case get_scoring_threshold (ls_config self) of
                   (Inl e, config) \<Rightarrow> (Inl e, self\<lparr>ls_config := config\<rparr>, MODEL_CACHE)
                 | (Inr threshold, config) \<Rightarrow>
                     (Inr (), self\<lparr>ls_config := config, ls_threshold := Some threshold\<rparr>,
                      MODEL_CACHE))
         | None \<Rightarrow>
             (case reload_model env self MODEL_CACHE of
                (Inl e, self, MODEL_CACHE) \<Rightarrow> (Inl e, self, MODEL_CACHE)
              | (Inr _, self, MODEL_CACHE) \<Rightarrow> (Inr (), self, MODEL_CACHE)))"

text \<open>\<^verbatim>\<open>LeadScorer.__init__\<close>.\<close>

definition LeadScorer_init ::
  "environment \<Rightarrow> string \<Rightarrow> model_cache \<Rightarrow> (error + lead_scorer) \<times> model_cache" where
  "LeadScorer_init env vertical MODEL_CACHE =
     (case new_ModelConfig env vertical of
        Inl e \<Rightarrow> (Inl e, MODEL_CACHE)
      | Inr config \<Rightarrow>
          (case new_FeatureEngineer env vertical of
             Inl e \<Rightarrow> (Inl e, MODEL_CACHE)
           | Inr _ \<Rightarrow>
               (case initialize_model env
                       \<lparr>ls_config = config, ls_model = None, ls_threshold = None,
                        ls_enable_monitoring = True\<rparr> MODEL_CACHE of
                  (Inl e, self, MODEL_CACHE) \<Rightarrow> (Inl e, MODEL_CACHE)
                | (Inr _, self, MODEL_CACHE) \<Rightarrow> (Inr self, MODEL_CACHE))))"

text \<open>
  \<^verbatim>\<open>LeadScorer.score_lead\<close>, without the latency. With monitoring enabled the
  score is compared with the threshold, which raises when no threshold is set.
\<close>

record scorer_result =
  sr_score :: real
  sr_price :: real
  sr_confidence :: real
  sr_feature_importance :: importance
  sr_threshold :: "real option"

definition LeadScorer_score_lead ::
  "environment \<Rightarrow> lead_scorer \<Rightarrow> lead_data \<Rightarrow> error + scorer_result" where
  "LeadScorer_score_lead env self lead_data =
     (case transform_and_predict env self lead_data of
        Inl e \<Rightarrow> Inl (ScoringFailed e)
      | Inr (score, importance) \<Rightarrow>
          (let price = calculate_price (mc_vertical (ls_config self)) (clock_month env) score
                         (get_market_conditions (clock_hour env) (clock_weekday env))
           in if ls_enable_monitoring self \<and> ls_threshold self = None
              then Inl (ScoringFailed TypeError)
              else Inr \<lparr>sr_score = score, sr_price = price,
                        sr_confidence = calculate_confidence score,
                        sr_feature_importance = importance,
                        sr_threshold = ls_threshold self\<rparr>))"

subsection \<open>services/scoring\_service.py\<close>

text \<open>
  The dictionaries of a \<^verbatim>\<open>ScoringService\<close>, with the \<^verbatim>\<open>MODEL_CACHE\<close> of the
  process that its scorers share.
\<close>

record scoring_service =
  ss_scorers :: "(string \<times> lead_scorer) list"
  ss_configs :: "(string \<times> model_config) list"
  ss_thresholds :: "(string \<times> real) list"
  ss_market_adjustments :: "(string \<times> (string \<times> real) list) list"
  ss_error_counts :: "(string \<times> nat) list"
  ss_circuit_open :: "(string \<times> bool) list"
  ss_MODEL_CACHE :: model_cache

text \<open>\<^verbatim>\<open>ScoringService.__init__\<close>.\<close>

definition ScoringService_init :: scoring_service where
  "ScoringService_init =
     \<lparr>ss_scorers = [], ss_configs = [], ss_thresholds = [], ss_market_adjustments = [],
      ss_error_counts = [], ss_circuit_open = [], ss_MODEL_CACHE = []\<rparr>"

text \<open>The response dictionary; \<^verbatim>\<open>original_score\<close> is absent from the fallback
  response and \<^verbatim>\<open>fallback\<close> is present in it only.\<close>

record scoring_result =
  res_score :: real
  res_original_score :: "real option"
  res_confidence :: real
  res_price :: real
  res_market_factors :: "(string \<times> real) list"
  res_feature_importance :: importance
  res_model_version :: string
  res_threshold :: real
  res_fallback :: bool

text \<open>\<^verbatim>\<open>ScoringService._record_error\<close> and \<^verbatim>\<open>_record_success\<close>.\<close>

definition record_error :: "scoring_service \<Rightarrow> string \<Rightarrow> scoring_service" where
  "record_error self vertical =
     (let self = self\<lparr>ss_error_counts :=
                   AList.update vertical (dict_get (ss_error_counts self) vertical 0 + 1)
                     (ss_error_counts self)\<rparr>
      in if dict_get (ss_error_counts self) vertical 0 \<ge> 5
         then self\<lparr>ss_circuit_open := AList.update vertical True (ss_circuit_open self)\<rparr>
         else self)"

definition record_success :: "scoring_service \<Rightarrow> string \<Rightarrow> scoring_service" where
  "record_success self vertical =
     self\<lparr>ss_error_counts := AList.update vertical 0 (ss_error_counts self),
          ss_circuit_open := AList.update vertical False (ss_circuit_open self)\<rparr>"

text \<open>\<^verbatim>\<open>ScoringService._get_fallback_score\<close>.\<close>

definition get_fallback_score :: "scoring_service \<Rightarrow> string \<Rightarrow> scoring_result" where
  "get_fallback_score self vertical =
     \<lparr>res_score = 0.5, res_original_score = None, res_confidence = 0.3, res_price = 75.0,
      res_market_factors = [], res_feature_importance = [],
      res_model_version = ''fallback'',
      res_threshold = dict_get (ss_thresholds self) vertical 0.65,
      res_fallback = True\<rparr>"

text \<open>
  \<^verbatim>\<open>ScoringService._get_scorer\<close>. An exception leaves the assignments made
  before it in place.
\<close>

definition get_scorer ::
  "environment \<Rightarrow> scoring_service \<Rightarrow> string \<Rightarrow> (error + lead_scorer) \<times> scoring_service" where
  "get_scorer env self vertical =
     (case map_of (ss_scorers self) vertical of
        Some scorer \<Rightarrow> (Inr scorer, self)
      | None \<Rightarrow>
          (case LeadScorer_init env vertical (ss_MODEL_CACHE self) of
             (Inl e, cache) \<Rightarrow> (Inl e, self\<lparr>ss_MODEL_CACHE := cache\<rparr>)
           | (Inr scorer, cache) \<Rightarrow>
               (let self = self\<lparr>ss_MODEL_CACHE := cache,
                                ss_scorers := AList.update vertical scorer (ss_scorers self)\<rparr>
                in case new_ModelConfig env vertical of
                     Inl e \<Rightarrow> (Inl e, self)
                   | Inr config \<Rightarrow>
                       (case get_scoring_threshold config of
                          (Inl e, config) \<Rightarrow>
                            (Inl e, self\<lparr>ss_configs :=
                                       AList.update vertical config (ss_configs self)\<rparr>)
                        | (Inr threshold, config) \<Rightarrow>
                            (let self = self\<lparr>ss_configs :=
                                            AList.update vertical config (ss_configs self),
                                          ss_thresholds :=
                                            AList.update vertical threshold (ss_thresholds self)\<rparr>
                             in case get_market_adjustments env config of
                                  Inl e \<Rightarrow> (Inl e, self)
                                | Inr adjustments \<Rightarrow>
                                    (Inr scorer,
                                     self\<lparr>ss_market_adjustments :=
                                       AList.update vertical adjustments
                                         (ss_market_adjustments self)\<rparr>))))))"

text \<open>\<^verbatim>\<open>ScoringService._apply_market_adjustments\<close>; \<^verbatim>\<open>np.clip\<close> is the
  clamp to [0, 1].\<close>

definition apply_market_adjustments :: "scoring_service \<Rightarrow> string \<Rightarrow> real \<Rightarrow> real \<Rightarrow> real" where
  "apply_market_adjustments self vertical score confidence =
     (let adjustments = dict_get (ss_market_adjustments self) vertical [];
          adjusted_score =
            fold (\<lambda>item adjusted. if confidence \<ge> 0.8 then adjusted * snd item else adjusted)
              adjustments score
      in min (max adjusted_score 0.0) 1.0)"

text \<open>\<^verbatim>\<open>ScoringService._calculate_price\<close>.\<close>

definition service_calculate_price :: "string \<Rightarrow> real \<Rightarrow> importance \<Rightarrow> real" where
  "service_calculate_price vertical score feature_importance =
     (let base_price = 50 + score * 100;
          base_price = base_price * dict_get PRICE_MULTIPLIERS vertical 1.0;
          base_price =
            (if feature_importance \<noteq> []
             then (let importance_factor =
                         sum_list (map snd feature_importance)
                           / of_nat (length feature_importance)
                   in base_price * (0.9 + importance_factor * 0.2))
             else base_price)
      in py_round2 (min (max base_price 25.0) 500.0))"

text \<open>
  The body of the \<^verbatim>\<open>try\<close> block of \<^verbatim>\<open>ScoringService.score_lead\<close>: the
  result or the exception, and the state it leaves.
\<close>

definition score_lead_try ::
  "environment \<Rightarrow> scoring_service \<Rightarrow> string \<Rightarrow> lead_data
     \<Rightarrow> (error + scoring_result) \<times> scoring_service" where
  "score_lead_try env self vertical lead_data =
     (if vertical = [] \<or> lead_data = [] then (Inl MissingParameters, self)
      else if dict_get (ss_circuit_open self) vertical False
      then (Inr (get_fallback_score self vertical), self)
      else
        (case get_scorer env self vertical of
           (Inl e, self) \<Rightarrow> (Inl e, self)
         | (Inr scorer, self) \<Rightarrow>
             (case LeadScorer_score_lead env scorer lead_data of
                Inl e \<Rightarrow> (Inl e, self)
              | Inr scoring_result \<Rightarrow>
                  (let adjusted_score =
                         apply_market_adjustments self vertical (sr_score scoring_result)
                           (sr_confidence scoring_result);
                       price = service_calculate_price vertical adjusted_score
                                 (sr_feature_importance scoring_result);
                       self = record_success self vertical
                   in case get_model_version env scorer of
                        Inl e \<Rightarrow> (Inl e, self)
                      | Inr version \<Rightarrow>
                          (Inr \<lparr>res_score = adjusted_score,
                                res_original_score = Some (sr_score scoring_result),
                                res_confidence = sr_confidence scoring_result,
                                res_price = price,
                                res_market_factors =
                                  dict_get (ss_market_adjustments self) vertical [],
                                res_feature_importance =
                                  sr_feature_importance scoring_result,
                                res_model_version = version,
                                res_threshold = dict_get (ss_thresholds self) vertical 0.65,
                                res_fallback = False\<rparr>, self)))))"

text \<open>
  \<^verbatim>\<open>ScoringService.score_lead\<close>: the handler records the error for the vertical
  and raises "Lead scoring failed".
\<close>

definition score_lead ::
  "environment \<Rightarrow> scoring_service \<Rightarrow> string \<Rightarrow> lead_data
     \<Rightarrow> (error + scoring_result) \<times> scoring_service" where
  "score_lead env self vertical lead_data =
     (case score_lead_try env self vertical lead_data of
        (Inr result, self) \<Rightarrow> (Inr result, self)
      | (Inl e, self) \<Rightarrow> (Inl (ScoringFailed e), record_error self vertical))"

text \<open>A sequence of calls of \<^verbatim>\<open>score_lead\<close>, each in its own environment: the
  state after the last one.\<close>

fun score_leads ::
  "scoring_service \<Rightarrow> (environment \<times> string \<times> lead_data) list \<Rightarrow> scoring_service" where
  "score_leads self [] = self"
| "score_leads self ((env, vertical, lead_data) # calls) =
     score_leads (snd (score_lead env self vertical lead_data)) calls"

text \<open>Whether every call of such a sequence fails.\<close>

fun all_fail :: "scoring_service \<Rightarrow> (environment \<times> string \<times> lead_data) list \<Rightarrow> bool" where
  "all_fail self [] = True"
| "all_fail self ((env, vertical, lead_data) # calls) =
     (isl (fst (score_lead env self vertical lead_data))
      \<and> all_fail (snd (score_lead env self vertical lead_data)) calls)"

text \<open>The entry of one vertical in the status dictionary of a reload.\<close>

datatype reload_status =
    Reloaded bool string real    \<comment> \<open>\<^verbatim>\<open>success\<close>, \<^verbatim>\<open>version\<close>, \<^verbatim>\<open>threshold\<close>\<close>
  | NotReloaded error            \<comment> \<open>\<^verbatim>\<open>success: False\<close> and \<^verbatim>\<open>error\<close>\<close>

text \<open>
  The body of the loop of \<^verbatim>\<open>ScoringService.reload_models\<close> for one vertical,
  with its own \<^verbatim>\<open>try\<close> block. \<^verbatim>\<open>ModelConfig(vertical)\<close> is the constructor
  of the configuration module, called with its default arguments.
\<close>

definition reload_vertical ::
  "environment \<Rightarrow> scoring_service \<Rightarrow> string \<Rightarrow> reload_status \<times> scoring_service" where
  "reload_vertical env self vertical =
     (case map_of (ss_scorers self) vertical of
        None \<Rightarrow> (NotReloaded (KeyError vertical), self)
      | Some scorer \<Rightarrow>
          (case reload_model env scorer (ss_MODEL_CACHE self) of
             (Inl e, scorer, cache) \<Rightarrow>
               (NotReloaded e,
                self\<lparr>ss_scorers := AList.update vertical scorer (ss_scorers self),
                     ss_MODEL_CACHE := cache\<rparr>)
           | (Inr success, scorer, cache) \<Rightarrow>
               (let self = self\<lparr>ss_scorers := AList.update vertical scorer (ss_scorers self),
                                ss_MODEL_CACHE := cache\<rparr>
                in case get_model_version env scorer of
                     Inl e \<Rightarrow> (NotReloaded e, self)
                   | Inr version \<Rightarrow>
                       (case float_of_version env version of
                          Inl e \<Rightarrow> (NotReloaded e, self)
                        | Inr _ \<Rightarrow>
                            (case ModelConfig_init vertical None True of
                               Inl e \<Rightarrow> (NotReloaded e, self)
                             | Inr config \<Rightarrow>
                                 (case get_scoring_threshold config of
                                    (Inl e, config) \<Rightarrow>
                                      (NotReloaded e,
                                       self\<lparr>ss_configs :=
                                         AList.update vertical config (ss_configs self)\<rparr>)
                                  | (Inr threshold, config) \<Rightarrow>
                                      (let self = self\<lparr>ss_configs :=
                                             AList.update vertical config (ss_configs self),
                                           ss_thresholds :=
                                             AList.update vertical threshold
                                               (ss_thresholds self)\<rparr>
                                       in case get_market_adjustments env config of
                                            Inl e \<Rightarrow> (NotReloaded e, self)
                                          | Inr adjustments \<Rightarrow>
                                              (Reloaded success version threshold,
                                               self\<lparr>ss_market_adjustments :=
                                                 AList.update vertical adjustments
                                                   (ss_market_adjustments self)\<rparr>))))))))"

text \<open>
  \<^verbatim>\<open>ScoringService.reload_models\<close>: the loop over the keys of
  \<^verbatim>\<open>_scorers\<close>, in their order, filling the status dictionary.
\<close>

fun reload_loop ::
  "environment \<Rightarrow> string list \<Rightarrow> scoring_service \<Rightarrow> (string \<times> reload_status) list
     \<Rightarrow> (string \<times> reload_status) list \<times> scoring_service" where
  "reload_loop env [] self reload_status = (reload_status, self)"
| "reload_loop env (vertical # verticals) self reload_status =
     (case reload_vertical env self vertical of
        (status, self) \<Rightarrow>
          reload_loop env verticals self (AList.update vertical status reload_status))"

definition reload_models ::
  "environment \<Rightarrow> scoring_service \<Rightarrow> (string \<times> reload_status) list \<times> scoring_service" where
  "reload_models env self = reload_loop env (map fst (ss_scorers self)) self []"

subsection \<open>Sample inputs\<close>

text \<open>
  The inputs at which the properties below are evaluated. \<open>sample_config\<close> is the
  configuration instance of a vertical with version 1.0 and an empty cache;
  \<open>healthy_env\<close> is an environment in which every collaborator succeeds and the model
  predicts 0.9, \<open>failing_env\<close> one in which the prediction raises; \<open>auto_record\<close> is
  the auto lead of the test suite.
\<close>

definition sample_config :: "string \<Rightarrow> model_config" where
  "sample_config vertical =
     \<lparr>mc_vertical = vertical, mc_config = dict_get FEATURE_CONFIG vertical [],
      mc_cache = Some empty_cache, mc_version = 1.0\<rparr>"

definition healthy_env :: environment where
  "healthy_env =
     \<lparr>MODEL_BASE_PATH = ''/opt/ml/models'', path_exists = (\<lambda>p. True),
      joblib_load = (\<lambda>p. Inr (Booster 1)),
      clock_now = 0, clock_month = 2, clock_hour = 20, clock_weekday = 1,
      new_ModelConfig = (\<lambda>v. Inr (sample_config v)),
      new_FeatureEngineer = (\<lambda>v. Inr ()),
      transform_and_predict = (\<lambda>scorer lead. Inr (0.9, [])),
      get_market_adjustments = (\<lambda>config. Inr []),
      get_model_version = (\<lambda>scorer. Inr ''1.0''),
      float_of_version = (\<lambda>version. Inr 1.0)\<rparr>"


definition auto_record :: lead_data where
  "auto_record =
     [(''age'', Num 30), (''driving_years'', Num 10), (''vehicle_age'', Num 5),
      (''annual_mileage'', Num 12000), (''vehicle_make'', Str ''Toyota''),
      (''vehicle_model'', Str ''Camry''), (''usage_type'', Str ''personal''),
      (''coverage_type'', Str ''full''), (''occupation'', Str ''engineer''),
      (''location'', Str ''California'')]"


text \<open>
  The healthy environment with the constructor of the configuration module in the
  place of its \<open>new_ModelConfig\<close>.
\<close>

definition constructor_env :: environment where
  "constructor_env = healthy_env\<lparr>new_ModelConfig := (\<lambda>v. ModelConfig_init v None True)\<rparr>"

text \<open>A scorer as its constructor leaves it, with a loaded model.\<close>

definition sample_scorer :: "string \<Rightarrow> lead_scorer" where
  "sample_scorer vertical =
     \<lparr>ls_config = sample_config vertical, ls_model = Some 0, ls_threshold = Some 0.65,
      ls_enable_monitoring = True\<rparr>"



text \<open>
  A service with three registered verticals, and an environment in which the model
  artifact of the home vertical cannot be loaded.
\<close>

definition three_verticals :: scoring_service where
  "three_verticals =
     ScoringService_init\<lparr>ss_scorers :=
       [(''auto'', sample_scorer ''auto''), (''home'', sample_scorer ''home''),
        (''life'', sample_scorer ''life'')]\<rparr>"

definition corrupt_home_env :: environment where
  "corrupt_home_env =
     healthy_env\<lparr>joblib_load :=
       (\<lambda>path. if path = ''/opt/ml/models/home'' then Inl LoadFailed else Inr (Booster 1))\<rparr>"

text \<open>
  A configuration instance of the auto vertical whose cache holds a model path and the
  threshold, and the feature configuration of the auto vertical with every optional
  setting left at its default.
\<close>

definition cached_auto_config :: model_config where
  "cached_auto_config =
     (sample_config ''auto'')\<lparr>mc_cache :=
        Some \<lparr>model_paths = [(''model_path_None'', ''/opt/ml/models/auto'')],
              scoring_threshold = Some 0.65\<rparr>\<rparr>"

definition auto_feature_config :: feature_config where
  "auto_feature_config =
     \<lparr>numerical_features = [''age'', ''driving_years'', ''vehicle_age'', ''annual_mileage''],
      categorical_features =
        [''vehicle_make'', ''vehicle_model'', ''usage_type'', ''coverage_type''],
      text_features = [''occupation'', ''location''],
      scaling = ''standard'',
      min_category_frequency = None, min_values = [], max_values = [],
      importance_change_threshold = None\<rparr>"

text \<open>
  The auto lead of the test suite as a frame with one row, and a feature engineer of
  the auto vertical that has not transformed anything yet and does not use the cache.
\<close>

definition auto_frame :: dataframe where
  "auto_frame = map (\<lambda>(name, value). (name, [value])) auto_record"

definition auto_engineer :: feature_engineer where
  "auto_engineer =
     \<lparr>fe_feature_config = auto_feature_config, fe_encoders = [], fe_vectorizers = [],
      fe_scalers = [], fe_use_cache = False\<rparr>"

text \<open>
  The feature configuration of the home vertical, and two batches of twenty values of
  one of its categorical columns; the value \<^verbatim>\<open>'frame'\<close> occurs ten times in each.
\<close>

definition home_feature_config :: feature_config where
  "home_feature_config =
     \<lparr>numerical_features = [''property_age'', ''square_footage'', ''property_value''],
      categorical_features = [''construction_type'', ''roof_type'', ''property_type''],
      text_features = [''address'', ''security_features''],
      scaling = ''minmax'',
      min_category_frequency = None, min_values = [], max_values = [],
      importance_change_threshold = None\<rparr>"

definition first_batch :: series where
  "first_batch = map Str (replicate 10 ''brick'' @ replicate 10 ''frame'')"

definition second_batch :: series where
  "second_batch = map Str (replicate 10 ''frame'' @ replicate 10 ''steel'')"

section \<open>Properties\<close>

subsection \<open>Rounding\<close>

lemma round_half_even_ge:
  assumes "of_int n \<le> x"
  shows "n \<le> round_half_even x"
proof -
  from assms have "n \<le> \<lfloor>x\<rfloor>" by (simp add: le_floor_iff)
  then show ?thesis by (simp add: round_half_even_def Let_def)
qed

lemma round_half_even_le:
  assumes "x \<le> of_int n"
  shows "round_half_even x \<le> n"
proof (cases "x = of_int n")
  case True
  then show ?thesis by (simp add: round_half_even_def)
next
  case False
  with assms have "x < of_int n" by simp
  then have "\<lfloor>x\<rfloor> < n" by (simp add: floor_less_iff)
  then show ?thesis by (simp add: round_half_even_def Let_def)
qed

lemma py_round2_bounds:
  assumes "25 \<le> x" and "x \<le> 500"
  shows "25 \<le> py_round2 x \<and> py_round2 x \<le> 500"
proof -
  from assms(1) have "of_int 2500 \<le> x * 100" by simp
  then have lo: "2500 \<le> round_half_even (x * 100)" by (rule round_half_even_ge)
  from assms(2) have "x * 100 \<le> of_int 50000" by simp
  then have hi: "round_half_even (x * 100) \<le> 50000" by (rule round_half_even_le)
  have "(25::real) \<le> of_int (round_half_even (x * 100)) / 100"
    using lo by (simp add: le_divide_eq)
  moreover have "(of_int (round_half_even (x * 100)) :: real) / 100 \<le> 500"
    using hi by (simp add: divide_le_eq)
  ultimately show ?thesis by (simp add: py_round2_def)
qed

subsection \<open>Pricing\<close>

lemma apply_condition_known:
  "map_of MARKET_ADJUSTMENTS (fst c) = Some a \<Longrightarrow> apply_condition c b = b * a"
  by (simp add: apply_condition_def)

lemma apply_condition_unknown:
  "map_of MARKET_ADJUSTMENTS (fst c) = None \<Longrightarrow> apply_condition c b = b"
  by (simp add: apply_condition_def)

lemma fold_apply_condition:
  "fold apply_condition cs b =
     b * prod_list (map (\<lambda>c. the (map_of MARKET_ADJUSTMENTS c))
           (filter (\<lambda>c. c \<in> fst ` set MARKET_ADJUSTMENTS) (map fst cs)))"
proof (induction cs arbitrary: b)
  case Nil
  show ?case by simp
next
  case (Cons c cs)
  show ?case
  proof (cases "map_of MARKET_ADJUSTMENTS (fst c)")
    case None
    then have "fst c \<notin> fst ` set MARKET_ADJUSTMENTS"
      by (simp add: map_of_eq_None_iff)
    then show ?thesis
      by (simp add: Cons.IH apply_condition_unknown [OF None])
  next
    case (Some a)
    then have "fst c \<in> fst ` set MARKET_ADJUSTMENTS"
      by (metis map_of_eq_None_iff option.distinct(1))
    then show ?thesis
      by (simp add: Cons.IH apply_condition_known [OF Some] Some mult.assoc)
  qed
qed

lemma seasonal_factor_eq:
  "(1 + 0.1 * (if month \<in> set [1, 4, 7, 10] then 1 else 0) :: real) =
     (if (month::nat) \<in> {1, 4, 7, 10} then 1.1 else 1.0)"
  by simp

lemma clamp_consts: "min (max x 25.0) 500.0 = min (max x 25) (500::real)"
  by simp

lemma calculate_price_unfold:
  "calculate_price vertical month score conditions =
     py_round2 (min (max
       ((50 + score * 100)
        * (case map_of PRICE_MULTIPLIERS vertical of Some m \<Rightarrow> m | None \<Rightarrow> 1)
        * prod_list (map (\<lambda>c. the (map_of MARKET_ADJUSTMENTS c))
             (filter (\<lambda>c. c \<in> fst ` set MARKET_ADJUSTMENTS) (map fst conditions)))
        * (if month \<in> {1, 4, 7, 10} then 1.1 else 1.0)) 25) 500)"
proof -
  have m: "dict_get PRICE_MULTIPLIERS vertical 1.0 =
      (case map_of PRICE_MULTIPLIERS vertical of Some m \<Rightarrow> m | None \<Rightarrow> 1)"
    by (simp add: dict_get_def split: option.split)
  show ?thesis
    unfolding calculate_price_def Let_def fold_apply_condition seasonal_factor_eq clamp_consts m
    by (rule refl)
qed

lemma clamped_price_shape:
  assumes "p = py_round2 (min (max x 25) 500)"
  shows "p = py_round2 (min (max x 25) 500) \<and> 25 \<le> p \<and> p \<le> 500
         \<and> (\<exists>cents :: int. p = of_int cents / 100)"
proof -
  have "25 \<le> min (max x 25) 500" and "min (max x 25) 500 \<le> 500"
    by simp_all
  then have "25 \<le> py_round2 (min (max x 25) 500) \<and> py_round2 (min (max x 25) 500) \<le> 500"
    by (rule py_round2_bounds)
  moreover have "\<exists>cents :: int. py_round2 (min (max x 25) 500) = of_int cents / 100"
    unfolding py_round2_def by (rule exI) (rule refl)
  ultimately show ?thesis
    unfolding assms by (intro conjI refl) blast+
qed

text \<open>
  C3. For every score (in particular every score in [0,1]), every vertical, every month
  and every market-conditions dictionary, the empty one included,
  \<^verbatim>\<open>calculate_price\<close> returns a multiple of 0.01 in [25, 500]: it is the product of
  the base price \<open>50 + 100 * score\<close>, the vertical's multiplier (1.0 for an unknown
  vertical), the adjustment of every supplied condition that is a known market
  adjustment, and the seasonal factor (1.1 in the months 1, 4, 7 and 10, else 1.0),
  clamped to [25, 500] and then rounded to two decimals.
\<close>

theorem calculate_price_range:
  "calculate_price vertical month score conditions =
     py_round2 (min (max
       ((50 + score * 100)
        * (case map_of PRICE_MULTIPLIERS vertical of Some m \<Rightarrow> m | None \<Rightarrow> 1)
        * prod_list (map (\<lambda>c. the (map_of MARKET_ADJUSTMENTS c))
             (filter (\<lambda>c. c \<in> fst ` set MARKET_ADJUSTMENTS) (map fst conditions)))
        * (if month \<in> {1, 4, 7, 10} then 1.1 else 1.0)) 25) 500)
   \<and> 25 \<le> calculate_price vertical month score conditions
   \<and> calculate_price vertical month score conditions \<le> 500
   \<and> (\<exists>cents :: int. calculate_price vertical month score conditions = of_int cents / 100)"
  by (rule clamped_price_shape [OF calculate_price_unfold])

subsection \<open>Confidence\<close>

text \<open>
  C9. The confidence derived from a score is the fixed three-tier lookup: it is 0.9
  exactly when the score is above 0.8 or below 0.2, it is 0.7 exactly when the score
  lies in [0.4, 0.6], and it is 0.8 exactly in the remaining cases. At the boundaries:
  0.85 gives 0.9, 0.5 gives 0.7, 0.7 gives 0.8, the scores 0.8 and 0.2 give 0.8, and
  the scores 0.4 and 0.6 give 0.7.
\<close>

theorem calculate_confidence_tiers:
  "(calculate_confidence score = 0.9 \<longleftrightarrow> (score > 0.8 \<or> score < 0.2))
   \<and> (calculate_confidence score = 0.7 \<longleftrightarrow> (0.4 \<le> score \<and> score \<le> 0.6))
   \<and> (calculate_confidence score = 0.8 \<longleftrightarrow>
        (\<not> (score > 0.8 \<or> score < 0.2) \<and> \<not> (0.4 \<le> score \<and> score \<le> 0.6)))
   \<and> calculate_confidence 0.85 = 0.9
   \<and> calculate_confidence 0.5 = 0.7
   \<and> calculate_confidence 0.7 = 0.8
   \<and> calculate_confidence 0.8 = 0.8
   \<and> calculate_confidence 0.2 = 0.8
   \<and> calculate_confidence 0.4 = 0.7
   \<and> calculate_confidence 0.6 = 0.7"
  by (simp add: calculate_confidence_def)

subsection \<open>The circuit breaker\<close>

lemma dict_get_update:
  "dict_get (AList.update k v d) k' dflt = (if k' = k then v else dict_get d k' dflt)"
  by (simp add: dict_get_def update_conv')

lemma record_error_count:
  "dict_get (ss_error_counts (record_error self v)) v' 0 =
     (if v' = v then dict_get (ss_error_counts self) v 0 + 1
      else dict_get (ss_error_counts self) v' 0)"
  by (simp add: record_error_def Let_def dict_get_update)

lemma record_error_open:
  "dict_get (ss_circuit_open (record_error self v)) v' False =
     (if v' = v \<and> dict_get (ss_error_counts self) v 0 + 1 \<ge> 5 then True
      else dict_get (ss_circuit_open self) v' False)"
  by (simp add: record_error_def Let_def dict_get_update)

lemma record_success_state:
  "dict_get (ss_circuit_open (record_success self v)) v' False =
     (if v' = v then False else dict_get (ss_circuit_open self) v' False)"
  "dict_get (ss_error_counts (record_success self v)) v' 0 =
     (if v' = v then 0 else dict_get (ss_error_counts self) v' 0)"
  by (simp_all add: record_success_def dict_get_update)

lemma get_scorer_breaker:
  "ss_circuit_open (snd (get_scorer env self v)) = ss_circuit_open self"
  "ss_error_counts (snd (get_scorer env self v)) = ss_error_counts self"
  by (simp_all add: get_scorer_def Let_def split: option.split sum.split prod.split)



text \<open>The state in which the try block ends: the breaker dictionaries are those of the
  start, or those written by \<open>record_success\<close>.\<close>

lemma score_lead_try_state:
  "(ss_error_counts (snd (score_lead_try env self v ld)) = ss_error_counts self
      \<and> ss_circuit_open (snd (score_lead_try env self v ld)) = ss_circuit_open self)
   \<or> (ss_error_counts (snd (score_lead_try env self v ld)) =
         AList.update v 0 (ss_error_counts self)
       \<and> ss_circuit_open (snd (score_lead_try env self v ld)) =
         AList.update v False (ss_circuit_open self)
       \<and> \<not> dict_get (ss_circuit_open self) v False
       \<and> (isl (fst (score_lead_try env self v ld)) \<longrightarrow>
            (\<exists>scorer. isl (get_model_version env scorer))))"
proof (cases "v = [] \<or> ld = [] \<or> dict_get (ss_circuit_open self) v False")
  case True
  then show ?thesis by (auto simp: score_lead_try_def)
next
  case False
  obtain r s where gs: "get_scorer env self v = (r, s)" by (cases "get_scorer env self v")
  have s: "ss_error_counts s = ss_error_counts self" "ss_circuit_open s = ss_circuit_open self"
    using get_scorer_breaker [of env self v] gs by simp_all
  show ?thesis
  proof (cases r)
    case (Inl e)
    with False gs s show ?thesis by (simp add: score_lead_try_def)
  next
    case (Inr scorer)
    show ?thesis
    proof (cases "LeadScorer_score_lead env scorer ld")
      case (Inl e)
      with False gs s Inr show ?thesis by (simp add: score_lead_try_def)
    next
      case res: (Inr result)
      show ?thesis
      proof (cases "get_model_version env scorer")
        case (Inl e)
        then have "isl (get_model_version env scorer)" by simp
        then have "\<exists>scorer. isl (get_model_version env scorer)" by blast
        with False gs s Inr res Inl show ?thesis
          by (simp add: score_lead_try_def Let_def record_success_def)
      next
        case ver: (Inr version)
        with False gs s Inr res show ?thesis
          by (simp add: score_lead_try_def Let_def record_success_def)
      qed
    qed
  qed
qed

lemma score_lead_failure:
  assumes "fst (score_lead env self v ld) = Inl e"
  shows "snd (score_lead env self v ld) = record_error (snd (score_lead_try env self v ld)) v"
    and "isl (fst (score_lead_try env self v ld))"
  using assms by (auto simp: score_lead_def split: prod.splits sum.splits)

lemma score_lead_failure_count:
  assumes "fst (score_lead env self v ld) = Inl e"
  shows "dict_get (ss_error_counts (snd (score_lead env self v ld))) v 0 =
           dict_get (ss_error_counts self) v 0 + 1
         \<or> (dict_get (ss_error_counts (snd (score_lead env self v ld))) v 0 = 1
            \<and> (\<exists>scorer. isl (get_model_version env scorer)))"
  using score_lead_try_state [of env self v ld] score_lead_failure [OF assms]
  by (auto simp: record_error_count dict_get_update)

lemma score_lead_keeps_open:
  assumes "dict_get (ss_circuit_open self) v False"
  shows "dict_get (ss_circuit_open (snd (score_lead env self v' ld))) v False"
proof (cases "fst (score_lead env self v' ld)")
  case (Inl e)
  from score_lead_failure(1) [OF Inl] score_lead_try_state [of env self v' ld] assms
  show ?thesis by (auto simp: record_error_open dict_get_update)
next
  case (Inr r)
  then have "snd (score_lead env self v' ld) = snd (score_lead_try env self v' ld)"
    by (auto simp: score_lead_def split: prod.splits sum.splits)
  with score_lead_try_state [of env self v' ld] assms
  show ?thesis by (auto simp: dict_get_update)
qed

lemma score_leads_keep_open:
  "dict_get (ss_circuit_open self) v False \<Longrightarrow>
   dict_get (ss_circuit_open (score_leads self calls)) v False"
  by (induction calls arbitrary: self) (auto simp: score_lead_keeps_open)


lemma scored_result_resets_breaker:
  assumes "fst (score_lead env self v ld) = Inr result" and "\<not> res_fallback result"
  shows "dict_get (ss_error_counts (snd (score_lead env self v ld))) v 0 = 0
         \<and> \<not> dict_get (ss_circuit_open (snd (score_lead env self v ld))) v False"
proof -
  from assms(1) have r: "fst (score_lead_try env self v ld) = Inr result"
    and s: "snd (score_lead env self v ld) = snd (score_lead_try env self v ld)"
    by (auto simp: score_lead_def split: prod.splits sum.splits)
  have closed: "\<not> (v = [] \<or> ld = [] \<or> dict_get (ss_circuit_open self) v False)"
  proof
    assume "v = [] \<or> ld = [] \<or> dict_get (ss_circuit_open self) v False"
    with r assms(2) show False
      by (auto simp: score_lead_try_def get_fallback_score_def split: if_splits)
  qed
  obtain g s1 where gs: "get_scorer env self v = (g, s1)" by (cases "get_scorer env self v")
  from r closed gs obtain scorer where g: "g = Inr scorer"
    by (cases g) (auto simp: score_lead_try_def)
  from r closed gs g obtain sr where sr: "LeadScorer_score_lead env scorer ld = Inr sr"
    by (cases "LeadScorer_score_lead env scorer ld") (auto simp: score_lead_try_def)
  from closed gs g sr have "snd (score_lead_try env self v ld) = record_success s1 v"
    by (auto simp: score_lead_try_def Let_def split: sum.splits)
  with s show ?thesis by (simp add: record_success_state)
qed

lemma all_fail_append:
  "all_fail self (calls @ later) \<longleftrightarrow>
     all_fail self calls \<and> all_fail (score_leads self calls) later"
  by (induction self calls rule: score_leads.induct) auto

lemma score_leads_append:
  "score_leads self (calls @ later) = score_leads (score_leads self calls) later"
  by (induction self calls rule: score_leads.induct) auto

lemma failing_calls_count:
  assumes "all_fail self calls"
    and "\<forall>call \<in> set calls. fst (snd call) = v
           \<and> (\<forall>scorer. \<not> isl (get_model_version (fst call) scorer))"
  shows "dict_get (ss_error_counts (score_leads self calls)) v 0 =
           dict_get (ss_error_counts self) v 0 + length calls"
  using assms
proof (induction self calls rule: score_leads.induct)
  case (1 self)
  show ?case by simp
next
  case (2 self env vertical lead_data calls)
  from "2.prems" have v: "vertical = v" and quiet: "\<forall>scorer. \<not> isl (get_model_version env scorer)"
    by simp_all
  from "2.prems" obtain e where e: "fst (score_lead env self v lead_data) = Inl e"
    using v by (cases "fst (score_lead env self v lead_data)") auto
  from score_lead_failure_count [OF e] quiet
  have step: "dict_get (ss_error_counts (snd (score_lead env self v lead_data))) v 0 =
      dict_get (ss_error_counts self) v 0 + 1"
    by blast
  from "2.prems" v have "dict_get (ss_error_counts
        (score_leads (snd (score_lead env self v lead_data)) calls)) v 0 =
      dict_get (ss_error_counts (snd (score_lead env self v lead_data))) v 0 + length calls"
    by (intro "2.IH" [unfolded v]) simp_all
  with step v show ?case by simp
qed

lemma failure_at_threshold_opens:
  assumes "fst (score_lead env self v ld) = Inl e"
    and "dict_get (ss_error_counts (snd (score_lead env self v ld))) v 0 \<ge> 5"
  shows "dict_get (ss_circuit_open (snd (score_lead env self v ld))) v False"
proof -
  let ?t = "snd (score_lead_try env self v ld)"
  from score_lead_failure(1) [OF assms(1)]
  have s: "snd (score_lead env self v ld) = record_error ?t v" .
  from assms(2) have "dict_get (ss_error_counts ?t) v 0 + 1 \<ge> 5"
    by (simp add: s record_error_count)
  then show ?thesis by (simp add: s record_error_open)
qed

lemma repeated_failures_trip_the_breaker:
  assumes "all_fail self calls" and "length calls \<ge> 5"
    and "\<forall>call \<in> set calls. fst (snd call) = v
           \<and> (\<forall>scorer. \<not> isl (get_model_version (fst call) scorer))"
  shows "dict_get (ss_circuit_open (score_leads self calls)) v False"
proof -
  from assms(2) obtain init last_call where calls: "calls = init @ [last_call]"
    by (cases calls rule: rev_cases) auto
  obtain env vertical ld where lc: "last_call = (env, vertical, ld)" by (cases last_call)
  from assms(3) calls lc have v: "vertical = v" by simp
  let ?s = "score_leads self init"
  from assms(1) calls lc v have "isl (fst (score_lead env ?s v ld))"
    by (simp add: all_fail_append)
  then obtain e where e: "fst (score_lead env ?s v ld) = Inl e"
    by (cases "fst (score_lead env ?s v ld)") auto
  have final: "score_leads self calls = snd (score_lead env ?s v ld)"
    by (simp add: calls lc v score_leads_append)
  from failing_calls_count [OF assms(1) assms(3)] assms(2)
  have "dict_get (ss_error_counts (score_leads self calls)) v 0 \<ge> 5" by simp
  then show ?thesis
    unfolding final using e by (intro failure_at_threshold_opens)
qed







subsection \<open>Configuration\<close>

lemma float_of_CONFIG_VERSION: "py_float CONFIG_VERSION = None"
  by (simp add: py_float_def CONFIG_VERSION_def)

lemma ModelConfig_init_fails: "ModelConfig_init vertical config_override enable_caching \<noteq> Inr self"
  by (simp add: ModelConfig_init_def float_of_CONFIG_VERSION split: option.split)

lemma ModelConfig_init_unsupported:
  "vertical \<noteq> ''auto'' \<Longrightarrow> vertical \<noteq> ''home'' \<Longrightarrow>
   ModelConfig_init vertical config_override enable_caching = Inl (UnsupportedVertical vertical)"
  by (simp add: ModelConfig_init_def FEATURE_CONFIG_def)

lemma default_threshold:
  assumes "map_of (mc_config self) ''scoring_threshold'' = None"
    and "mc_cache self = None \<or> mc_cache self = Some empty_cache"
  shows "fst (get_scoring_threshold self) = Inr 0.65"
  using assms
  by (auto simp: get_scoring_threshold_def DEFAULT_SCORING_THRESHOLD_def empty_cache_def)

text \<open>
  C2. Constructing a \<^verbatim>\<open>ModelConfig\<close> fails for each of the six verticals of the
  product: health, life, renters and commercial have no entry in
  \<^verbatim>\<open>FEATURE_CONFIG\<close> and are rejected as unsupported, and for auto and home the
  conversion \<^verbatim>\<open>float(CONFIG_VERSION)\<close> of the constant \<^verbatim>\<open>'1.0.0'\<close> raises.
  (A vertical outside \<^verbatim>\<open>FEATURE_CONFIG\<close> is always rejected as unsupported, and an
  instance without a configured or cached threshold returns the default 0.65:
  \<open>ModelConfig_init_unsupported\<close>, \<open>default_threshold\<close>.)
\<close>

theorem ModelConfig_rejects_supported_verticals:
  "ModelConfig_init ''health'' None True = Inl (UnsupportedVertical ''health'')
   \<and> ModelConfig_init ''life'' None True = Inl (UnsupportedVertical ''life'')
   \<and> ModelConfig_init ''renters'' None True = Inl (UnsupportedVertical ''renters'')
   \<and> ModelConfig_init ''commercial'' None True = Inl (UnsupportedVertical ''commercial'')
   \<and> ModelConfig_init ''auto'' None True = Inl (FloatConversion ''1.0.0'')
   \<and> ModelConfig_init ''home'' None True = Inl (FloatConversion ''1.0.0'')"
proof -
  have "ModelConfig_init ''auto'' None True = Inl (FloatConversion ''1.0.0'')"
    by (simp add: ModelConfig_init_def FEATURE_CONFIG_def float_of_CONFIG_VERSION)
       (simp add: CONFIG_VERSION_def)
  moreover have "ModelConfig_init ''home'' None True = Inl (FloatConversion ''1.0.0'')"
    by (simp add: ModelConfig_init_def FEATURE_CONFIG_def float_of_CONFIG_VERSION)
       (simp add: CONFIG_VERSION_def)
  ultimately show ?thesis by (simp add: ModelConfig_init_unsupported)
qed

lemma update_config_invalid_keys:
  assumes "validate_config_override self new_config = Inl e"
  shows "update_config base writable self new_config persist = (Inl e, self)"
  using assms by (simp add: update_config_def)

lemma update_config_persist_failure:
  assumes "validate_config_override self new_config = Inr ()"
    and "\<not> writable (path_join (path_join base (mc_vertical self)) ''config.yaml'')"
  shows "update_config base writable self new_config True =
           (Inl (ConfigUpdateFailed PersistenceError),
            self\<lparr>mc_version := mc_version self + 0.1,
                 mc_cache := map_option (\<lambda>c. empty_cache) (mc_cache self)\<rparr>)"
  using assms by (simp add: update_config_def persist_configuration_def Let_def)

text \<open>
  C6. When the persistence write fails, \<^verbatim>\<open>update_config\<close> raises "Failed to
  update configuration" and restores the configuration mapping only: on an auto
  instance of version 1.0 whose cache holds a model path and the threshold, the call
  leaves the version at 1.1 and the cache empty, so the instance is not the one before
  the call. (A failed key validation leaves the whole instance as it was:
  \<open>update_config_invalid_keys\<close>.)
\<close>

theorem update_config_rollback_is_partial:
  "update_config ''/opt/ml/models'' (\<lambda>path. False) cached_auto_config
     [(''preprocessing'', StrDict [(''scaling'', ''minmax''), (''encoding'', ''label'')])] True =
     (Inl (ConfigUpdateFailed PersistenceError),
      cached_auto_config\<lparr>mc_version := 1.1, mc_cache := Some empty_cache\<rparr>)
   \<and> mc_version cached_auto_config = 1.0
   \<and> mc_cache cached_auto_config =
       Some \<lparr>model_paths = [(''model_path_None'', ''/opt/ml/models/auto'')],
             scoring_threshold = Some 0.65\<rparr>
   \<and> cached_auto_config\<lparr>mc_version := 1.1, mc_cache := Some empty_cache\<rparr> \<noteq> cached_auto_config"
proof -
  have v: "validate_config_override cached_auto_config
     [(''preprocessing'', StrDict [(''scaling'', ''minmax''), (''encoding'', ''label'')])] = Inr ()"
    by (simp add: validate_config_override_def cached_auto_config_def sample_config_def
        FEATURE_CONFIG_def)
  have ver: "mc_version cached_auto_config = 1.0"
    by (simp add: cached_auto_config_def sample_config_def)
  have cache: "mc_cache cached_auto_config =
       Some \<lparr>model_paths = [(''model_path_None'', ''/opt/ml/models/auto'')],
             scoring_threshold = Some 0.65\<rparr>"
    by (simp add: cached_auto_config_def)
  have "update_config ''/opt/ml/models'' (\<lambda>path. False) cached_auto_config
     [(''preprocessing'', StrDict [(''scaling'', ''minmax''), (''encoding'', ''label'')])] True =
     (Inl (ConfigUpdateFailed PersistenceError),
      cached_auto_config\<lparr>mc_version := mc_version cached_auto_config + 0.1,
          mc_cache := map_option (\<lambda>c. empty_cache) (mc_cache cached_auto_config)\<rparr>)"
    using v by (rule update_config_persist_failure) simp
  moreover have "mc_version cached_auto_config + 0.1 = 1.1"
    by (simp add: ver)
  moreover have "mc_version (cached_auto_config\<lparr>mc_version := 1.1, mc_cache := Some empty_cache\<rparr>)
      \<noteq> mc_version cached_auto_config"
    by (simp add: ver)
  then have "cached_auto_config\<lparr>mc_version := 1.1, mc_cache := Some empty_cache\<rparr>
      \<noteq> cached_auto_config"
    by metis
  ultimately show ?thesis using ver cache by simp
qed

subsection \<open>Reloading the models\<close>

lemma reload_model_cache_independent:
  "fst (reload_model env scorer cache) = fst (reload_model env scorer cache')
   \<and> fst (snd (reload_model env scorer cache)) = fst (snd (reload_model env scorer cache'))"
  by (simp add: reload_model_def Let_def split: prod.split sum.split artifact.split)

lemma reload_vertical_status_cong:
  assumes "map_of (ss_scorers s1) v = map_of (ss_scorers s2) v"
  shows "fst (reload_vertical env s1 v) = fst (reload_vertical env s2 v)"
proof (cases "map_of (ss_scorers s2) v")
  case None
  with assms show ?thesis by (simp add: reload_vertical_def)
next
  case (Some scorer)
  obtain r1 sc1 c1 where r1: "reload_model env scorer (ss_MODEL_CACHE s1) = (r1, sc1, c1)"
    by (cases "reload_model env scorer (ss_MODEL_CACHE s1)") auto
  obtain r2 sc2 c2 where r2: "reload_model env scorer (ss_MODEL_CACHE s2) = (r2, sc2, c2)"
    by (cases "reload_model env scorer (ss_MODEL_CACHE s2)") auto
  from reload_model_cache_independent [of env scorer "ss_MODEL_CACHE s1" "ss_MODEL_CACHE s2"]
    r1 r2 have eq: "r1 = r2" "sc1 = sc2" by simp_all
  from assms Some r1 r2 eq show ?thesis
    by (simp add: reload_vertical_def Let_def split: sum.split prod.split)
qed

lemma reload_vertical_scorers_eq:
  "ss_scorers (snd (reload_vertical env s v)) =
     (case map_of (ss_scorers s) v of
        None \<Rightarrow> ss_scorers s
      | Some scorer \<Rightarrow>
          AList.update v (fst (snd (reload_model env scorer (ss_MODEL_CACHE s)))) (ss_scorers s))"
  by (simp add: reload_vertical_def Let_def split: option.split sum.split prod.split)

lemma reload_vertical_scorers:
  "map fst (ss_scorers (snd (reload_vertical env s v))) = map fst (ss_scorers s)"
  "v' \<noteq> v \<Longrightarrow> map_of (ss_scorers (snd (reload_vertical env s v))) v' = map_of (ss_scorers s) v'"
proof -
  show "map fst (ss_scorers (snd (reload_vertical env s v))) = map fst (ss_scorers s)"
  proof (cases "map_of (ss_scorers s) v")
    case None
    then show ?thesis by (simp add: reload_vertical_scorers_eq)
  next
    case (Some scorer)
    then have "v \<in> set (map fst (ss_scorers s))"
      by (metis map_of_eq_None_iff option.distinct(1) set_map)
    with Some show ?thesis by (simp add: reload_vertical_scorers_eq update_keys)
  qed
  show "v' \<noteq> v \<Longrightarrow>
      map_of (ss_scorers (snd (reload_vertical env s v))) v' = map_of (ss_scorers s) v'"
    by (simp add: reload_vertical_scorers_eq update_conv' split: option.split)
qed

lemma reload_loop_status:
  assumes "distinct vs"
  shows "map_of (fst (reload_loop env vs s acc)) v =
           (if v \<in> set vs then Some (fst (reload_vertical env s v)) else map_of acc v)"
  using assms
proof (induction vs arbitrary: s acc)
  case Nil
  show ?case by simp
next
  case (Cons x vs)
  obtain st s1 where step: "reload_vertical env s x = (st, s1)"
    by (cases "reload_vertical env s x")
  from Cons.prems have dist: "distinct vs" and fresh: "x \<notin> set vs" by simp_all
  have IH: "map_of (fst (reload_loop env vs s1 (AList.update x st acc))) v =
      (if v \<in> set vs then Some (fst (reload_vertical env s1 v))
       else map_of (AList.update x st acc) v)"
    by (rule Cons.IH [OF dist])
  show ?case
  proof (cases "v = x")
    case True
    with fresh step IH show ?thesis by (simp add: update_conv')
  next
    case False
    have "map_of (ss_scorers s1) v = map_of (ss_scorers s) v"
      using reload_vertical_scorers(2) [of v x env s] False step by simp
    then have "fst (reload_vertical env s1 v) = fst (reload_vertical env s v)"
      by (rule reload_vertical_status_cong)
    with False step IH show ?thesis by (simp add: update_conv')
  qed
qed

lemma reload_loop_keys:
  assumes "distinct vs" and "set vs \<inter> set (map fst acc) = {}"
  shows "map fst (fst (reload_loop env vs s acc)) = map fst acc @ vs"
  using assms
proof (induction vs arbitrary: s acc)
  case Nil
  show ?case by simp
next
  case (Cons x vs)
  obtain st s1 where step: "reload_vertical env s x = (st, s1)"
    by (cases "reload_vertical env s x")
  from Cons.prems have x: "x \<notin> set (map fst acc)" by auto
  then have keys: "map fst (AList.update x st acc) = map fst acc @ [x]"
    by (simp add: update_keys)
  from Cons.prems have d: "distinct vs" by simp
  from Cons.prems have "set vs \<inter> set (map fst acc @ [x]) = {}" by auto
  then have "set vs \<inter> set (map fst (AList.update x st acc)) = {}"
    by (simp only: keys)
  with d have "map fst (fst (reload_loop env vs s1 (AList.update x st acc))) =
      map fst (AList.update x st acc) @ vs"
    by (rule Cons.IH)
  with step keys show ?case by simp
qed


lemma ModelConfig_init_supported:
  "vertical = ''auto'' \<or> vertical = ''home'' \<Longrightarrow>
   ModelConfig_init vertical None True = Inl (FloatConversion ''1.0.0'')"
  by (auto simp: ModelConfig_init_def FEATURE_CONFIG_def float_of_CONFIG_VERSION)
     (simp_all add: CONFIG_VERSION_def)

lemma reload_vertical_never_succeeds:
  "fst (reload_vertical env self vertical) \<noteq> Reloaded success version threshold"
proof -
  obtain e where "ModelConfig_init vertical None True = Inl e"
    using ModelConfig_init_fails [of vertical None True]
    by (cases "ModelConfig_init vertical None True") auto
  then show ?thesis
    by (simp add: reload_vertical_def Let_def split: option.split sum.split prod.split)
qed

lemma reload_vertical_failed_reload:
  assumes "map_of (ss_scorers self) vertical = Some scorer"
    and "fst (reload_model env scorer (ss_MODEL_CACHE self)) = Inl e"
  shows "fst (reload_vertical env self vertical) = NotReloaded e"
proof -
  obtain a b where "reload_model env scorer (ss_MODEL_CACHE self) = (Inl e, a, b)"
    using assms(2) by (cases "reload_model env scorer (ss_MODEL_CACHE self)") auto
  with assms(1) show ?thesis by (simp add: reload_vertical_def)
qed

text \<open>What a reload of one vertical leaves in the service.\<close>

lemma reload_vertical_state:
  "snd (reload_vertical env self vertical) =
     (case map_of (ss_scorers self) vertical of
        None \<Rightarrow> self
      | Some scorer \<Rightarrow>
          self\<lparr>ss_scorers :=
                 AList.update vertical
                   (fst (snd (reload_model env scorer (ss_MODEL_CACHE self)))) (ss_scorers self),
               ss_MODEL_CACHE := snd (snd (reload_model env scorer (ss_MODEL_CACHE self)))\<rparr>)"
proof -
  obtain e where "ModelConfig_init vertical None True = Inl e"
    using ModelConfig_init_fails [of vertical None True]
    by (cases "ModelConfig_init vertical None True") auto
  then show ?thesis
    by (simp add: reload_vertical_def Let_def split: option.split sum.split prod.split)
qed

lemma reload_loop_untouched:
  "ss_configs (snd (reload_loop env vs s acc)) = ss_configs s
   \<and> ss_thresholds (snd (reload_loop env vs s acc)) = ss_thresholds s
   \<and> ss_market_adjustments (snd (reload_loop env vs s acc)) = ss_market_adjustments s
   \<and> ss_error_counts (snd (reload_loop env vs s acc)) = ss_error_counts s
   \<and> ss_circuit_open (snd (reload_loop env vs s acc)) = ss_circuit_open s"
proof (induction vs arbitrary: s acc)
  case Nil
  show ?case by simp
next
  case (Cons x vs)
  obtain st s1 where step: "reload_vertical env s x = (st, s1)"
    by (cases "reload_vertical env s x")
  then have s1: "s1 = snd (reload_vertical env s x)" by simp
  have "ss_configs s1 = ss_configs s \<and> ss_thresholds s1 = ss_thresholds s
      \<and> ss_market_adjustments s1 = ss_market_adjustments s
      \<and> ss_error_counts s1 = ss_error_counts s \<and> ss_circuit_open s1 = ss_circuit_open s"
    unfolding s1 reload_vertical_state by (simp split: option.split)
  with Cons.IH [of s1 "AList.update x st acc"] step show ?case by simp
qed

lemma reload_loop_scorers:
  assumes "distinct vs"
  shows "map_of (ss_scorers (snd (reload_loop env vs s acc))) v =
           (if v \<in> set vs
            then map_option (\<lambda>scorer. fst (snd (reload_model env scorer []))) (map_of (ss_scorers s) v)
            else map_of (ss_scorers s) v)"
  using assms
proof (induction vs arbitrary: s acc)
  case Nil
  show ?case by simp
next
  case (Cons x vs)
  obtain st s1 where step: "reload_vertical env s x = (st, s1)"
    by (cases "reload_vertical env s x")
  then have s1: "s1 = snd (reload_vertical env s x)" by simp
  from Cons.prems have dist: "distinct vs" and fresh: "x \<notin> set vs" by simp_all
  have IH: "map_of (ss_scorers (snd (reload_loop env vs s1 (AList.update x st acc)))) v =
      (if v \<in> set vs
       then map_option (\<lambda>scorer. fst (snd (reload_model env scorer []))) (map_of (ss_scorers s1) v)
       else map_of (ss_scorers s1) v)"
    by (rule Cons.IH [OF dist])
  have other: "map_of (ss_scorers s1) v = map_of (ss_scorers s) v" if "v \<noteq> x"
    using reload_vertical_scorers(2) [OF that, of env s] s1 by simp
  have own: "map_of (ss_scorers s1) x =
      map_option (\<lambda>scorer. fst (snd (reload_model env scorer []))) (map_of (ss_scorers s) x)"
  proof (cases "map_of (ss_scorers s) x")
    case None
    then show ?thesis by (simp add: s1 reload_vertical_state)
  next
    case (Some scorer)
    have "fst (snd (reload_model env scorer (ss_MODEL_CACHE s))) =
        fst (snd (reload_model env scorer []))"
      using reload_model_cache_independent [of env scorer "ss_MODEL_CACHE s" "[]"] by simp
    with Some show ?thesis by (simp add: s1 reload_vertical_state update_conv')
  qed
  show ?case
  proof (cases "v = x")
    case True
    with fresh step IH own show ?thesis by simp
  next
    case False
    with step IH other show ?thesis by simp
  qed
qed

text \<open>
  The general shape of a reload: one status per registered vertical, in the order
  of the registry; the status of a vertical is the one that reloading it alone from
  the initial state gives, so it does not depend on the other verticals; a vertical
  whose \<^verbatim>\<open>reload_model\<close> raises gets the error; no vertical is reported as
  reloaded; every registered scorer is left as its own \<^verbatim>\<open>reload_model\<close> leaves
  it, and the configurations, thresholds and market adjustments of the service are
  not touched.
\<close>

lemma reload_models_shape:
  assumes "distinct (map fst (ss_scorers self))"
  shows "map fst (fst (reload_models env self)) = map fst (ss_scorers self)"
    and "v \<in> set (map fst (ss_scorers self)) \<Longrightarrow>
         map_of (fst (reload_models env self)) v = Some (fst (reload_vertical env self v))"
    and "map_of (ss_scorers self) v = Some scorer \<Longrightarrow>
         fst (reload_model env scorer (ss_MODEL_CACHE self)) = Inl e \<Longrightarrow>
         map_of (fst (reload_models env self)) v = Some (NotReloaded e)"
    and "map_of (fst (reload_models env self)) v \<noteq> Some (Reloaded success version threshold)"
    and "map_of (ss_scorers (snd (reload_models env self))) v =
           map_option (\<lambda>scorer. fst (snd (reload_model env scorer []))) (map_of (ss_scorers self) v)"
    and "ss_configs (snd (reload_models env self)) = ss_configs self
         \<and> ss_thresholds (snd (reload_models env self)) = ss_thresholds self
         \<and> ss_market_adjustments (snd (reload_models env self)) = ss_market_adjustments self"
proof -
  have status: "map_of (fst (reload_models env self)) v =
      (if v \<in> set (map fst (ss_scorers self)) then Some (fst (reload_vertical env self v))
       else None)" for v
    using reload_loop_status [OF assms, of env self "[]" v] by (simp add: reload_models_def)
  show "map fst (fst (reload_models env self)) = map fst (ss_scorers self)"
    using reload_loop_keys [OF assms, of "[]" env self] by (simp add: reload_models_def)
  show "v \<in> set (map fst (ss_scorers self)) \<Longrightarrow>
         map_of (fst (reload_models env self)) v = Some (fst (reload_vertical env self v))"
    by (simp add: status)
  show "map_of (fst (reload_models env self)) v = Some (NotReloaded e)"
    if reg: "map_of (ss_scorers self) v = Some scorer"
      and bad: "fst (reload_model env scorer (ss_MODEL_CACHE self)) = Inl e"
  proof -
    from reg have "v \<in> set (map fst (ss_scorers self))"
      by (metis map_of_eq_None_iff option.distinct(1) set_map)
    with reload_vertical_failed_reload [OF reg bad] show ?thesis by (simp add: status)
  qed
  show "map_of (fst (reload_models env self)) v \<noteq> Some (Reloaded success version threshold)"
    using reload_vertical_never_succeeds [of env self v success version threshold]
    by (simp add: status)
  show "map_of (ss_scorers (snd (reload_models env self))) v =
           map_option (\<lambda>scorer. fst (snd (reload_model env scorer []))) (map_of (ss_scorers self) v)"
  proof (cases "v \<in> set (map fst (ss_scorers self))")
    case True
    with reload_loop_scorers [OF assms, of env self "[]" v] show ?thesis
      by (simp add: reload_models_def)
  next
    case False
    then have "map_of (ss_scorers self) v = None"
      by (simp add: map_of_eq_None_iff)
    with False reload_loop_scorers [OF assms, of env self "[]" v] show ?thesis
      by (simp add: reload_models_def)
  qed
  show "ss_configs (snd (reload_models env self)) = ss_configs self
         \<and> ss_thresholds (snd (reload_models env self)) = ss_thresholds self
         \<and> ss_market_adjustments (snd (reload_models env self)) = ss_market_adjustments self"
    using reload_loop_untouched [of env "map fst (ss_scorers self)" self "[]"]
    by (simp add: reload_models_def)
qed


lemmas reload_defs = reload_model_def get_model_path_def get_scoring_threshold_def
  path_join_def empty_cache_def DEFAULT_SCORING_THRESHOLD_def sample_scorer_def
  sample_config_def corrupt_home_env_def healthy_env_def three_verticals_def
  ScoringService_init_def FEATURE_CONFIG_def dict_get_def

text \<open>
  C7. One call of \<^verbatim>\<open>reload_models\<close> on a service with the verticals auto, home
  and life registered, the artifact of home unloadable: \<^verbatim>\<open>reload_model\<close> succeeds
  for auto and for life and installs the new model in their scorers and in the model
  cache, and it fails for home, whose scorer keeps its model. The loop is not aborted
  and every vertical gets its own status, but all three are \<^verbatim>\<open>success: False\<close>:
  home with its reload error, auto with the error of \<^verbatim>\<open>float(CONFIG_VERSION)\<close> and
  life as an unsupported vertical, both raised by the \<^verbatim>\<open>ModelConfig(vertical)\<close> of
  the loop body after the reload succeeded. The configurations, thresholds and market
  adjustments of the service stay as they were. (No vertical is ever reported as
  reloaded, and the status of a vertical does not depend on the others:
  \<open>reload_models_shape\<close>.)
\<close>

theorem reload_reports_no_success:
  "reload_models corrupt_home_env three_verticals =
     ([(''auto'', NotReloaded (FloatConversion ''1.0.0'')),
       (''home'', NotReloaded (ReloadFailed LoadFailed)),
       (''life'', NotReloaded (UnsupportedVertical ''life''))],
      three_verticals
        \<lparr>ss_scorers :=
           [(''auto'',
             \<lparr>ls_config = (sample_config ''auto'')\<lparr>mc_cache :=
                Some \<lparr>model_paths = [(''model_path_None'', ''/opt/ml/models/auto'')],
                      scoring_threshold = Some 0.65\<rparr>\<rparr>,
              ls_model = Some 1, ls_threshold = Some 0.65, ls_enable_monitoring = True\<rparr>),
            (''home'',
             \<lparr>ls_config = (sample_config ''home'')\<lparr>mc_cache :=
                Some \<lparr>model_paths = [(''model_path_None'', ''/opt/ml/models/home'')],
                      scoring_threshold = None\<rparr>\<rparr>,
              ls_model = Some 0, ls_threshold = Some 0.65, ls_enable_monitoring = True\<rparr>),
            (''life'',
             \<lparr>ls_config = (sample_config ''life'')\<lparr>mc_cache :=
                Some \<lparr>model_paths = [(''model_path_None'', ''/opt/ml/models/life'')],
                      scoring_threshold = Some 0.65\<rparr>\<rparr>,
              ls_model = Some 1, ls_threshold = Some 0.65, ls_enable_monitoring = True\<rparr>)],
         ss_MODEL_CACHE := [(''auto'', 1, 0), (''life'', 1, 0)]\<rparr>)
   \<and> fst (reload_model corrupt_home_env (sample_scorer ''auto'') []) = Inr True
   \<and> fst (reload_model corrupt_home_env (sample_scorer ''home'') []) =
       Inl (ReloadFailed LoadFailed)
   \<and> fst (reload_model corrupt_home_env (sample_scorer ''life'') []) = Inr True"
proof -
  have a: "ModelConfig_init ''auto'' None True = Inl (FloatConversion ''1.0.0'')"
    by (simp add: ModelConfig_init_supported)
  have l: "ModelConfig_init ''life'' None True = Inl (UnsupportedVertical ''life'')"
    by (simp add: ModelConfig_init_unsupported)
  have "reload_models corrupt_home_env three_verticals =
     ([(''auto'', NotReloaded (FloatConversion ''1.0.0'')),
       (''home'', NotReloaded (ReloadFailed LoadFailed)),
       (''life'', NotReloaded (UnsupportedVertical ''life''))],
      three_verticals
        \<lparr>ss_scorers :=
           [(''auto'',
             \<lparr>ls_config = (sample_config ''auto'')\<lparr>mc_cache :=
                Some \<lparr>model_paths = [(''model_path_None'', ''/opt/ml/models/auto'')],
                      scoring_threshold = Some 0.65\<rparr>\<rparr>,
              ls_model = Some 1, ls_threshold = Some 0.65, ls_enable_monitoring = True\<rparr>),
            (''home'',
             \<lparr>ls_config = (sample_config ''home'')\<lparr>mc_cache :=
                Some \<lparr>model_paths = [(''model_path_None'', ''/opt/ml/models/home'')],
                      scoring_threshold = None\<rparr>\<rparr>,
              ls_model = Some 0, ls_threshold = Some 0.65, ls_enable_monitoring = True\<rparr>),
            (''life'',
             \<lparr>ls_config = (sample_config ''life'')\<lparr>mc_cache :=
                Some \<lparr>model_paths = [(''model_path_None'', ''/opt/ml/models/life'')],
                      scoring_threshold = Some 0.65\<rparr>\<rparr>,
              ls_model = Some 1, ls_threshold = Some 0.65, ls_enable_monitoring = True\<rparr>)],
         ss_MODEL_CACHE := [(''auto'', 1, 0), (''life'', 1, 0)]\<rparr>)"
    by (simp add: reload_models_def reload_vertical_def reload_defs Let_def a l)
  moreover have "fst (reload_model corrupt_home_env (sample_scorer ''auto'') []) = Inr True"
    by (simp add: reload_defs Let_def)
  moreover have "fst (reload_model corrupt_home_env (sample_scorer ''home'') []) =
       Inl (ReloadFailed LoadFailed)"
    by (simp add: reload_defs Let_def)
  moreover have "fst (reload_model corrupt_home_env (sample_scorer ''life'') []) = Inr True"
    by (simp add: reload_defs Let_def)
  ultimately show ?thesis by simp
qed
subsection \<open>Scoring with the configuration constructor\<close>

text \<open>
  When the configuration of a scorer comes from \<open>ModelConfig_init\<close>, the first
  scoring of a vertical fails in the construction of the scorer and is recorded as an
  error like any other failure. The breaker then opens after five calls and stays
  open in the same way.
\<close>

lemma first_scoring_fails_with_the_constructor:
  assumes "vertical \<noteq> []" and "lead_data \<noteq> []"
    and "\<not> dict_get (ss_circuit_open self) vertical False"
    and "map_of (ss_scorers self) vertical = None"
    and "new_ModelConfig env = (\<lambda>v. ModelConfig_init v None True)"
  shows "\<exists>e. score_lead env self vertical lead_data =
              (Inl (ScoringFailed e), record_error self vertical)"
proof -
  obtain e where e: "ModelConfig_init vertical None True = Inl e"
    using ModelConfig_init_fails [of vertical None True]
    by (cases "ModelConfig_init vertical None True") auto
  with assms show ?thesis
    by (simp add: score_lead_def score_lead_try_def get_scorer_def LeadScorer_init_def)
qed

lemma latch_with_the_constructor:
  "score_leads ScoringService_init (replicate 5 (constructor_env, ''auto'', auto_record)) =
     ScoringService_init\<lparr>ss_error_counts := [(''auto'', 5)],
                           ss_circuit_open := [(''auto'', True)]\<rparr>
   \<and> score_lead constructor_env
        (ScoringService_init\<lparr>ss_error_counts := [(''auto'', 5)],
                              ss_circuit_open := [(''auto'', True)]\<rparr>) ''auto'' auto_record =
       (Inr (get_fallback_score ScoringService_init ''auto''),
        ScoringService_init\<lparr>ss_error_counts := [(''auto'', 5)],
                              ss_circuit_open := [(''auto'', True)]\<rparr>)"
proof -
  have c: "ModelConfig_init ''auto'' None True = Inl (FloatConversion ''1.0.0'')"
    by (simp add: ModelConfig_init_supported)
  have "score_leads ScoringService_init (replicate 5 (constructor_env, ''auto'', auto_record)) =
     ScoringService_init\<lparr>ss_error_counts := [(''auto'', 5)],
                           ss_circuit_open := [(''auto'', True)]\<rparr>"
    by (simp add: score_lead_def score_lead_try_def get_scorer_def LeadScorer_init_def
        constructor_env_def healthy_env_def c record_error_def dict_get_def auto_record_def
        ScoringService_init_def Let_def numeral_eq_Suc)
  moreover have "score_lead constructor_env
        (ScoringService_init\<lparr>ss_error_counts := [(''auto'', 5)],
                              ss_circuit_open := [(''auto'', True)]\<rparr>) ''auto'' auto_record =
       (Inr (get_fallback_score ScoringService_init ''auto''),
        ScoringService_init\<lparr>ss_error_counts := [(''auto'', 5)],
                              ss_circuit_open := [(''auto'', True)]\<rparr>)"
    by (simp add: score_lead_def score_lead_try_def dict_get_def auto_record_def
        get_fallback_score_def ScoringService_init_def)
  ultimately show ?thesis by simp
qed
subsection \<open>Feature importance tracking\<close>

lemma dict_update_other:
  "k \<notin> fst ` set e \<Longrightarrow> map_of (dict_update d e) k = map_of d k"
  unfolding dict_update_def
  by (induction e arbitrary: d) (auto simp: update_conv')

lemma tracked_after_update:
  assumes "distinct (map fst scores)" and "(feature, score) \<in> set scores"
  shows "map_of (dict_update tracker scores) feature = Some score"
  using assms
proof (induction scores arbitrary: tracker)
  case Nil
  then show ?case by simp
next
  case (Cons item scores)
  have step: "dict_update tracker (item # scores) =
      dict_update (AList.update (fst item) (snd item) tracker) scores"
    by (simp add: dict_update_def)
  show ?case
  proof (cases "(feature, score) \<in> set scores")
    case True
    with Cons.prems have "map_of (dict_update (AList.update (fst item) (snd item) tracker) scores)
        feature = Some score"
      by (intro Cons.IH) simp_all
    then show ?thesis by (simp only: step)
  next
    case False
    with Cons.prems have item: "item = (feature, score)" by simp
    with Cons.prems have "feature \<notin> fst ` set scores" by simp
    then have "map_of (dict_update (AList.update (fst item) (snd item) tracker) scores) feature =
        map_of (AList.update (fst item) (snd item) tracker) feature"
      by (rule dict_update_other)
    with item have "map_of (dict_update (AList.update (fst item) (snd item) tracker) scores)
        feature = Some score"
      by (simp add: update_conv')
    then show ?thesis by (simp only: step)
  qed
qed

lemma no_alert_is_ever_triggered:
  assumes "distinct (map fst scores)"
    and "case importance_change_threshold cfg of Some t \<Rightarrow> 0 \<le> t | None \<Rightarrow> True"
  shows "snd (snd (update_feature_importance cfg tracker scores)) = []"
proof -
  have "(\<lambda>(feature, score).
        case map_of (dict_update tracker scores) feature of
          None \<Rightarrow> []
        | Some tracked \<Rightarrow>
            (let change = \<bar>score - tracked\<bar>
             in if change > (case importance_change_threshold cfg of
                               Some t \<Rightarrow> t | None \<Rightarrow> 0.2)
                then [(feature, change)] else [])) item = []"
    if "item \<in> set scores" for item
  proof -
    obtain feature score where item: "item = (feature, score)" by (cases item)
    with that assms(1) have "map_of (dict_update tracker scores) feature = Some score"
      by (simp add: tracked_after_update)
    with item assms(2) show ?thesis by (simp split: option.splits)
  qed
  then have "analyze_importance_trends cfg (dict_update tracker scores) scores = []"
    by (simp add: analyze_importance_trends_def)
  then show ?thesis by (simp add: update_feature_importance_def Let_def)
qed

lemma invalid_scores_iff:
  "fst (update_feature_importance cfg tracker scores) = Inl InvalidScores \<longleftrightarrow>
     (\<exists>score \<in> snd ` set scores. \<not> (0 \<le> score \<and> score \<le> 1))"
  by (auto simp: update_feature_importance_def Let_def list_all_iff)

text \<open>
  C8. With the tracked importance of a feature at 0.1 and the default threshold 0.2,
  updating that feature to 0.9 succeeds and stores 0.9 but triggers no alert, although
  the change from the tracked value is 0.8: the tracker is updated before the trends are
  analysed, so each new score is compared with itself. (No update with distinct keys
  triggers an alert under a non-negative threshold, and the call fails with invalid
  scores exactly when some score lies outside [0,1]: \<open>no_alert_is_ever_triggered\<close>,
  \<open>invalid_scores_iff\<close>.)
\<close>

theorem importance_alert_is_missed:
  "update_feature_importance auto_feature_config [(''age'', 0.1)] [(''age'', 0.9)] =
     (Inr True, [(''age'', 0.9)], [])
   \<and> \<bar>0.9 - 0.1\<bar> > (0.2 :: real)"
  by (simp add: update_feature_importance_def analyze_importance_trends_def dict_update_def
      auto_feature_config_def)
subsection \<open>The feature vector\<close>

lemma select_columns_names:
  "select_columns data names = Inr cols \<Longrightarrow> map fst cols = names"
  by (induction names arbitrary: cols) (auto split: option.splits sum.splits)

lemma validate_numerical_ranges_names:
  "validate_numerical_ranges cfg data = Inr cols \<Longrightarrow> map fst cols = map fst data"
  by (induction cfg data arbitrary: cols rule: validate_numerical_ranges.induct)
     (auto split: sum.splits)

lemma preprocess_numerical_layout:
  assumes "preprocess_numerical cfg numerical_data = Inr block"
  shows "map column_origin block = map (Pair NumericalBlock) (map fst numerical_data)"
proof -
  from assms obtain cols where cols: "validate_numerical_ranges cfg numerical_data = Inr cols"
    by (cases "validate_numerical_ranges cfg numerical_data")
       (auto simp: preprocess_numerical_def)
  have names: "map fst cols = map fst numerical_data"
    using cols by (rule validate_numerical_ranges_names)
  from assms cols have "map column_origin block = map (Pair NumericalBlock) (map fst cols)"
    by (auto simp: preprocess_numerical_def Let_def split: if_splits prod.splits)
  with names show ?thesis by simp
qed

lemma encode_columns_layout:
  "fst (encode_columns cfg cols encoders) = Inr block \<Longrightarrow>
   map column_origin block = map (Pair CategoricalBlock) (map fst cols)"
proof (induction cols arbitrary: encoders block)
  case Nil
  then show ?case by simp
next
  case (Cons col cols)
  obtain column cells where col: "col = (column, cells)" by (cases col)
  from Cons.prems col obtain vals where vals: "category_cells cells = Inr vals"
    by (cases "category_cells cells") auto
  define cd where
    "cd = replace_rare (case min_category_frequency cfg of Some n \<Rightarrow> n | None \<Rightarrow> 10) vals"
  define next_encoders where
    "next_encoders = AList.update column (Some (sort (remdups cd)))
       (if column \<notin> set (map fst encoders) then AList.update column None encoders
        else encoders)"
  obtain r e where rest: "encode_columns cfg cols next_encoders = (r, e)"
    by (cases "encode_columns cfg cols next_encoders")
  from Cons.prems col vals rest obtain encoded where r: "r = Inr encoded"
    and block: "block = CategoricalColumn column (map (\<lambda>v. index_of v (sort (remdups cd))) cd)
                  # encoded"
    by (cases r)
       (auto simp: Let_def LabelEncoder_fit_transform_def cd_def next_encoders_def)
  from rest r have "fst (encode_columns cfg cols next_encoders) = Inr encoded" by simp
  then have "map column_origin encoded = map (Pair CategoricalBlock) (map fst cols)"
    by (rule Cons.IH)
  with block col show ?case by simp
qed

lemma fit_transform_width_bounds:
  assumes "fit_transform_width (select_vectorizer cleaned) cleaned = Inr width"
  shows "1 \<le> width \<and> width \<le> 100"
proof (cases "length (remdups (py_split (py_join '' '' cleaned))) > 10000")
  case True
  with assms show ?thesis by (simp add: select_vectorizer_def)
next
  case False
  with assms show ?thesis
    by (auto simp: select_vectorizer_def Let_def Suc_le_eq split: if_splits)
qed

lemma vectorize_columns_layout:
  "fst (vectorize_columns cols vectorizers) = Inr block \<Longrightarrow>
   \<exists>widths. length widths = length cols \<and> (\<forall>w \<in> set widths. 1 \<le> w \<and> w \<le> 100)
     \<and> map column_origin block =
         concat (map2 (\<lambda>name w. replicate w (TextBlock, name)) (map fst cols) widths)"
proof (induction cols arbitrary: vectorizers block)
  case Nil
  then show ?case by simp
next
  case (Cons col cols)
  obtain column cells where col: "col = (column, cells)" by (cases col)
  from Cons.prems col obtain cleaned where cleaned: "clean_text cells = Inr cleaned"
    by (cases "clean_text cells") auto
  from Cons.prems col cleaned obtain width
    where width: "fit_transform_width (select_vectorizer cleaned) cleaned = Inr width"
    by (cases "fit_transform_width (select_vectorizer cleaned) cleaned")
       (auto simp: Let_def)
  define next_vectorizers where
    "next_vectorizers = AList.update column (select_vectorizer cleaned) vectorizers"
  obtain r v where rest: "vectorize_columns cols next_vectorizers = (r, v)"
    by (cases "vectorize_columns cols next_vectorizers")
  from Cons.prems col cleaned width rest obtain vectorized where r: "r = Inr vectorized"
    and block: "block = map (TextComponent column) [0..<width] @ vectorized"
    by (cases r) (auto simp: Let_def next_vectorizers_def)
  from rest r have "fst (vectorize_columns cols next_vectorizers) = Inr vectorized" by simp
  from Cons.IH [OF this] obtain widths where widths: "length widths = length cols"
    "\<forall>w \<in> set widths. 1 \<le> w \<and> w \<le> 100"
    "map column_origin vectorized =
       concat (map2 (\<lambda>name w. replicate w (TextBlock, name)) (map fst cols) widths)"
    by blast
  have head: "map column_origin (map (TextComponent column) [0..<width]) =
      replicate width (TextBlock, column)"
    by (simp add: comp_def map_replicate_const)
  have "length (width # widths) = length (col # cols)"
    using widths(1) by simp
  moreover have "\<forall>w \<in> set (width # widths). 1 \<le> w \<and> w \<le> 100"
    using widths(2) fit_transform_width_bounds [OF width] by simp
  moreover have "map column_origin block =
      concat (map2 (\<lambda>name w. replicate w (TextBlock, name)) (map fst (col # cols))
                (width # widths))"
    using block head widths(3) col by simp
  ultimately show ?case by blast
qed

lemma length_text_block:
  "length names = length widths \<Longrightarrow>
   length (concat (map2 (\<lambda>name w. replicate w (TextBlock, name)) names widths)) =
     sum_list widths"
  by (induction names widths rule: list_induct2) simp_all

lemma transform_features_layout:
  assumes "fst (transform_features self cache lead_data return_importance) =
             Inr (features, importance)"
    and "\<not> fe_use_cache self"
  shows "\<exists>widths.
           length widths = length (text_features (fe_feature_config self))
           \<and> (\<forall>w \<in> set widths. 1 \<le> w \<and> w \<le> 100)
           \<and> map column_origin features =
               map (Pair NumericalBlock) (numerical_features (fe_feature_config self))
               @ map (Pair CategoricalBlock) (categorical_features (fe_feature_config self))
               @ concat (map2 (\<lambda>name w. replicate w (TextBlock, name))
                    (text_features (fe_feature_config self)) widths)
           \<and> length features =
               length (numerical_features (fe_feature_config self))
               + length (categorical_features (fe_feature_config self))
               + sum_list widths"
proof -
  let ?cfg = "fe_feature_config self"
  from assms obtain nd cd td
    where nd: "select_columns lead_data (numerical_features ?cfg) = Inr nd"
      and cd: "select_columns lead_data (categorical_features ?cfg) = Inr cd"
      and td: "select_columns lead_data (text_features ?cfg) = Inr td"
      and groups: "fst (process_feature_groups self nd cd td) = Inr features"
    by (auto simp: transform_features_def Let_def split: sum.splits prod.splits)
  from groups obtain numerical where numerical: "preprocess_numerical ?cfg nd = Inr numerical"
    by (cases "preprocess_numerical ?cfg nd") (auto simp: process_feature_groups_def)
  obtain c e where enc: "encode_columns ?cfg cd (fe_encoders self) = (c, e)"
    by (cases "encode_columns ?cfg cd (fe_encoders self)")
  from groups numerical enc obtain categorical where categorical: "c = Inr categorical"
    by (cases c) (auto simp: process_feature_groups_def preprocess_categorical_def)
  obtain t v where vec: "vectorize_columns td (fe_vectorizers self) = (t, v)"
    by (cases "vectorize_columns td (fe_vectorizers self)")
  from groups numerical enc categorical vec obtain vectorized where vectorized: "t = Inr vectorized"
    and features: "features = numerical @ categorical @ vectorized"
    by (cases t)
       (auto simp: process_feature_groups_def preprocess_categorical_def preprocess_text_def
          Let_def split: if_splits)
  have n: "map column_origin numerical = map (Pair NumericalBlock) (numerical_features ?cfg)"
    using preprocess_numerical_layout [OF numerical] select_columns_names [OF nd] by simp
  have "fst (encode_columns ?cfg cd (fe_encoders self)) = Inr categorical"
    using enc categorical by simp
  then have c: "map column_origin categorical =
      map (Pair CategoricalBlock) (categorical_features ?cfg)"
    using encode_columns_layout select_columns_names [OF cd] by fastforce
  have "fst (vectorize_columns td (fe_vectorizers self)) = Inr vectorized"
    using vec vectorized by simp
  from vectorize_columns_layout [OF this] select_columns_names [OF td]
  obtain widths where widths: "length widths = length (text_features ?cfg)"
    "\<forall>w \<in> set widths. 1 \<le> w \<and> w \<le> 100"
    "map column_origin vectorized =
       concat (map2 (\<lambda>name w. replicate w (TextBlock, name)) (text_features ?cfg) widths)"
    by (metis length_map)
  have layout: "map column_origin features =
      map (Pair NumericalBlock) (numerical_features ?cfg)
      @ map (Pair CategoricalBlock) (categorical_features ?cfg)
      @ concat (map2 (\<lambda>name w. replicate w (TextBlock, name)) (text_features ?cfg) widths)"
    using features n c widths(3) by simp
  have "length features = length (map column_origin features)" by simp
  also have "\<dots> = length (numerical_features ?cfg) + length (categorical_features ?cfg)
      + sum_list widths"
    using widths(1) by (simp only: layout length_append length_map length_text_block)
  finally have "length features = length (numerical_features ?cfg)
      + length (categorical_features ?cfg) + sum_list widths" .
  with widths(1,2) layout show ?thesis by blast
qed

lemma auto_numerical_block:
  "preprocess_numerical auto_feature_config
     [(''age'', [Num 30]), (''driving_years'', [Num 10]), (''vehicle_age'', [Num 5]),
      (''annual_mileage'', [Num 12000])] =
   Inr [NumericalColumn ''age'' [Some 0], NumericalColumn ''driving_years'' [Some 0],
        NumericalColumn ''vehicle_age'' [Some 0], NumericalColumn ''annual_mileage'' [Some 0]]"
  by (simp add: preprocess_numerical_def auto_feature_config_def validate_column_range_def
      present_def fillna_mean_def mean_def StandardScaler_fit_transform_def)

lemma auto_categorical_block:
  "preprocess_categorical auto_feature_config
     [(''vehicle_make'', [Str ''Toyota'']), (''vehicle_model'', [Str ''Camry'']),
      (''usage_type'', [Str ''personal'']), (''coverage_type'', [Str ''full''])] [] =
   (Inr [CategoricalColumn ''vehicle_make'' [0], CategoricalColumn ''vehicle_model'' [0],
         CategoricalColumn ''usage_type'' [0], CategoricalColumn ''coverage_type'' [0]],
    [(''vehicle_make'', Some [''Other'']), (''vehicle_model'', Some [''Other'']),
     (''usage_type'', Some [''Other'']), (''coverage_type'', Some [''Other''])])"
  by code_simp

lemma auto_text_block:
  "preprocess_text [(''occupation'', [Str ''engineer'']), (''location'', [Str ''California''])] [] =
    (Inr [TextComponent ''occupation'' 0, TextComponent ''location'' 0],
     [(''occupation'', TfidfVectorizer 100), (''location'', TfidfVectorizer 100)])"
  by code_simp

text \<open>
  C4. The auto lead of the test suite has all required columns and is transformed into
  a feature vector of width 10: four numerical columns, four categorical columns, and
  one column for each of the two text columns, because the TF-IDF vectorizer returns
  one column per term of the vocabulary it learns (here a single word) and
  \<^verbatim>\<open>max_features=100\<close> is only an upper bound. With 100 columns per text
  feature the width of the vertical would be 4 + 4 + 100 * 2 = 208. In every
  successful transformation that is not answered from the cache the blocks come in
  the order numerical, categorical, text, with one column per numerical and per
  categorical feature and between 1 and 100 columns per text feature
  (\<open>transform_features_layout\<close>); the hashing path does return 100 columns per text
  column (\<open>hashing_block_is_100_wide\<close>, \<open>tfidf_block_width\<close>).
\<close>

theorem tfidf_block_is_not_100_wide:
  "fst (transform_features auto_engineer [] auto_frame True) =
     Inr ([NumericalColumn ''age'' [Some 0], NumericalColumn ''driving_years'' [Some 0],
           NumericalColumn ''vehicle_age'' [Some 0], NumericalColumn ''annual_mileage'' [Some 0],
           CategoricalColumn ''vehicle_make'' [0], CategoricalColumn ''vehicle_model'' [0],
           CategoricalColumn ''usage_type'' [0], CategoricalColumn ''coverage_type'' [0],
           TextComponent ''occupation'' 0, TextComponent ''location'' 0], [])
   \<and> length (numerical_features auto_feature_config)
       + length (categorical_features auto_feature_config)
       + 100 * length (text_features auto_feature_config) = 208"
proof -
  have v: "validate_input_data auto_feature_config auto_frame = Inr ()"
    by (simp add: validate_input_data_def auto_feature_config_def auto_frame_def auto_record_def)
  have n: "select_columns auto_frame (numerical_features auto_feature_config) =
      Inr [(''age'', [Num 30]), (''driving_years'', [Num 10]), (''vehicle_age'', [Num 5]),
           (''annual_mileage'', [Num 12000])]"
    by (simp add: auto_feature_config_def auto_frame_def auto_record_def)
  have c: "select_columns auto_frame (categorical_features auto_feature_config) =
      Inr [(''vehicle_make'', [Str ''Toyota'']), (''vehicle_model'', [Str ''Camry'']),
           (''usage_type'', [Str ''personal'']), (''coverage_type'', [Str ''full''])]"
    by (simp add: auto_feature_config_def auto_frame_def auto_record_def)
  have t: "select_columns auto_frame (text_features auto_feature_config) =
      Inr [(''occupation'', [Str ''engineer'']), (''location'', [Str ''California''])]"
    by (simp add: auto_feature_config_def auto_frame_def auto_record_def)
  have "fst (transform_features auto_engineer [] auto_frame True) =
     Inr ([NumericalColumn ''age'' [Some 0], NumericalColumn ''driving_years'' [Some 0],
           NumericalColumn ''vehicle_age'' [Some 0], NumericalColumn ''annual_mileage'' [Some 0],
           CategoricalColumn ''vehicle_make'' [0], CategoricalColumn ''vehicle_model'' [0],
           CategoricalColumn ''usage_type'' [0], CategoricalColumn ''coverage_type'' [0],
           TextComponent ''occupation'' 0, TextComponent ''location'' 0], [])"
    by (simp add: transform_features_def auto_engineer_def v n c t process_feature_groups_def
        auto_numerical_block auto_categorical_block auto_text_block)
  moreover have "length (numerical_features auto_feature_config)
       + length (categorical_features auto_feature_config)
       + 100 * length (text_features auto_feature_config) = 208"
    by (simp add: auto_feature_config_def)
  ultimately show ?thesis by simp
qed

lemma hashing_block_is_100_wide:
  assumes "length (remdups (py_split (py_join '' '' cleaned_text))) > 10000"
  shows "fit_transform_width (select_vectorizer cleaned_text) cleaned_text = Inr 100"
  using assms by (simp add: select_vectorizer_def)

lemma tfidf_block_width:
  assumes "length (remdups (py_split (py_join '' '' cleaned_text))) \<le> 10000"
    and "fit_transform_width (select_vectorizer cleaned_text) cleaned_text = Inr width"
  shows "width = min 100 (length (remdups (concat (map sk_tokens cleaned_text))))"
  using assms by (auto simp: select_vectorizer_def Let_def split: if_splits)

subsection \<open>Stored transformers\<close>

lemma encode_columns_ignores_encoders:
  "fst (encode_columns cfg cols encoders) = fst (encode_columns cfg cols encoders')"
proof (induction cols arbitrary: encoders encoders')
  case Nil
  show ?case by simp
next
  case (Cons col cols)
  obtain column cells where col: "col = (column, cells)" by (cases col)
  show ?case
  proof (cases "category_cells cells")
    case (Inl e)
    with col show ?thesis by simp
  next
    case (Inr vals)
    define cd where
      "cd = replace_rare (case min_category_frequency cfg of Some n \<Rightarrow> n | None \<Rightarrow> 10) vals"
    define left where
      "left = AList.update column (Some (sort (remdups cd)))
         (if column \<notin> set (map fst encoders) then AList.update column None encoders
          else encoders)"
    define right where
      "right = AList.update column (Some (sort (remdups cd)))
         (if column \<notin> set (map fst encoders') then AList.update column None encoders'
          else encoders')"
    obtain r1 e1 where l: "encode_columns cfg cols left = (r1, e1)"
      by (cases "encode_columns cfg cols left")
    obtain r2 e2 where r: "encode_columns cfg cols right = (r2, e2)"
      by (cases "encode_columns cfg cols right")
    have same: "r1 = r2"
      using Cons.IH [of left right] l r by simp
    have L: "fst (encode_columns cfg (col # cols) encoders) =
        (case r1 of
           Inl e \<Rightarrow> Inl e
         | Inr encoded \<Rightarrow>
             Inr (CategoricalColumn column (map (\<lambda>v. index_of v (sort (remdups cd))) cd)
                    # encoded))"
      using col Inr l
      by (simp add: Let_def LabelEncoder_fit_transform_def cd_def left_def split: sum.split)
    have R: "fst (encode_columns cfg (col # cols) encoders') =
        (case r2 of
           Inl e \<Rightarrow> Inl e
         | Inr encoded \<Rightarrow>
             Inr (CategoricalColumn column (map (\<lambda>v. index_of v (sort (remdups cd))) cd)
                    # encoded))"
      using col Inr r
      by (simp add: Let_def LabelEncoder_fit_transform_def cd_def right_def split: sum.split)
    show ?thesis by (simp only: L R same)
  qed
qed

lemma vectorize_columns_ignores_vectorizers:
  "fst (vectorize_columns cols vectorizers) = fst (vectorize_columns cols vectorizers')"
proof (induction cols arbitrary: vectorizers vectorizers')
  case Nil
  show ?case by simp
next
  case (Cons col cols)
  obtain column cells where col: "col = (column, cells)" by (cases col)
  show ?case
  proof (cases "clean_text cells")
    case (Inl e)
    with col show ?thesis by simp
  next
    case (Inr cleaned)
    show ?thesis
    proof (cases "fit_transform_width (select_vectorizer cleaned) cleaned")
      case bad: (Inl e)
      with col Inr show ?thesis by (simp add: Let_def)
    next
      case ok: (Inr width)
      define left where
        "left = AList.update column (select_vectorizer cleaned) vectorizers"
      define right where
        "right = AList.update column (select_vectorizer cleaned) vectorizers'"
      obtain r1 v1 where l: "vectorize_columns cols left = (r1, v1)"
        by (cases "vectorize_columns cols left")
      obtain r2 v2 where r: "vectorize_columns cols right = (r2, v2)"
        by (cases "vectorize_columns cols right")
      have same: "r1 = r2"
        using Cons.IH [of left right] l r by simp
      have L: "fst (vectorize_columns (col # cols) vectorizers) =
          (case r1 of
             Inl e \<Rightarrow> Inl e
           | Inr vectorized \<Rightarrow> Inr (map (TextComponent column) [0..<width] @ vectorized))"
        using col Inr ok l by (simp add: Let_def left_def split: sum.split)
      have R: "fst (vectorize_columns (col # cols) vectorizers') =
          (case r2 of
             Inl e \<Rightarrow> Inl e
           | Inr vectorized \<Rightarrow> Inr (map (TextComponent column) [0..<width] @ vectorized))"
        using col Inr ok r by (simp add: Let_def right_def split: sum.split)
      show ?thesis by (simp only: L R same)
    qed
  qed
qed

lemma stored_transformers_are_not_reused:
  "fst (process_feature_groups
          (self\<lparr>fe_encoders := encoders, fe_vectorizers := vectorizers, fe_scalers := scalers\<rparr>)
          numerical_data categorical_data text_data) =
   fst (process_feature_groups self numerical_data categorical_data text_data)"
proof (cases "preprocess_numerical (fe_feature_config self) numerical_data")
  case (Inl e)
  then show ?thesis by (simp add: process_feature_groups_def)
next
  case num: (Inr numerical)
  obtain c1 e1 where c1: "encode_columns (fe_feature_config self) categorical_data encoders = (c1, e1)"
    by (cases "encode_columns (fe_feature_config self) categorical_data encoders")
  obtain c2 e2 where c2: "encode_columns (fe_feature_config self) categorical_data (fe_encoders self) = (c2, e2)"
    by (cases "encode_columns (fe_feature_config self) categorical_data (fe_encoders self)")
  have c: "c1 = c2"
    using encode_columns_ignores_encoders
      [of "fe_feature_config self" categorical_data encoders "fe_encoders self"] c1 c2
    by simp
  obtain t1 v1 where t1: "vectorize_columns text_data vectorizers = (t1, v1)"
    by (cases "vectorize_columns text_data vectorizers")
  obtain t2 v2 where t2: "vectorize_columns text_data (fe_vectorizers self) = (t2, v2)"
    by (cases "vectorize_columns text_data (fe_vectorizers self)")
  have t: "t1 = t2"
    using vectorize_columns_ignores_vectorizers [of text_data vectorizers "fe_vectorizers self"]
      t1 t2
    by simp
  from num c1 c2 c t1 t2 t show ?thesis
    by (simp add: process_feature_groups_def preprocess_categorical_def preprocess_text_def
        Let_def split: sum.split)
qed

lemma scalers_are_never_stored:
  "fe_scalers (snd (process_feature_groups self numerical_data categorical_data text_data)) =
     fe_scalers self"
  by (simp add: process_feature_groups_def Let_def split: sum.split prod.split)

text \<open>
  C5. The transformers are fit again in every call. With the encoder of a categorical
  column fit by a first batch on the classes brick and frame, a second batch with the
  values frame and steel refits the stored encoder on frame and steel: the value
  \<^verbatim>\<open>'frame'\<close> is encoded as 1 in the first call and as 0 in the second. The
  scaler is created and fit in every call: under min-max scaling the value 40 is
  scaled to 1 in a batch with 20 and to 0 in a batch with 60. No call reads a stored
  encoder, vectorizer or scaler, and no scaler is ever stored
  (\<open>stored_transformers_are_not_reused\<close>, \<open>scalers_are_never_stored\<close>).
\<close>

theorem transformers_are_refit_on_every_call:
  "preprocess_categorical home_feature_config [(''construction_type'', first_batch)] [] =
     (Inr [CategoricalColumn ''construction_type'' (replicate 10 0 @ replicate 10 1)],
      [(''construction_type'', Some [''brick'', ''frame''])])
   \<and> preprocess_categorical home_feature_config [(''construction_type'', second_batch)]
       [(''construction_type'', Some [''brick'', ''frame''])] =
     (Inr [CategoricalColumn ''construction_type'' (replicate 10 0 @ replicate 10 1)],
      [(''construction_type'', Some [''frame'', ''steel''])])
   \<and> first_batch ! 10 = Str ''frame'' \<and> second_batch ! 0 = Str ''frame''
   \<and> preprocess_numerical home_feature_config [(''property_age'', [Num 20, Num 40])] =
       Inr [NumericalColumn ''property_age'' [Some 0, Some 1]]
   \<and> preprocess_numerical home_feature_config [(''property_age'', [Num 40, Num 60])] =
       Inr [NumericalColumn ''property_age'' [Some 0, Some 1]]"
proof -
  have a: "preprocess_categorical home_feature_config [(''construction_type'', first_batch)] [] =
     (Inr [CategoricalColumn ''construction_type'' (replicate 10 0 @ replicate 10 1)],
      [(''construction_type'', Some [''brick'', ''frame''])])"
    by code_simp
  have b: "preprocess_categorical home_feature_config [(''construction_type'', second_batch)]
       [(''construction_type'', Some [''brick'', ''frame''])] =
     (Inr [CategoricalColumn ''construction_type'' (replicate 10 0 @ replicate 10 1)],
      [(''construction_type'', Some [''frame'', ''steel''])])"
    by code_simp
  have c: "first_batch ! 10 = Str ''frame'' \<and> second_batch ! 0 = Str ''frame''"
    by code_simp
  have d: "preprocess_numerical home_feature_config [(''property_age'', [Num 20, Num 40])] =
       Inr [NumericalColumn ''property_age'' [Some 0, Some 1]]"
    by (simp add: preprocess_numerical_def home_feature_config_def validate_column_range_def
        present_def fillna_mean_def mean_def MinMaxScaler_fit_transform_def)
  have e: "preprocess_numerical home_feature_config [(''property_age'', [Num 40, Num 60])] =
       Inr [NumericalColumn ''property_age'' [Some 0, Some 1]]"
    by (simp add: preprocess_numerical_def home_feature_config_def validate_column_range_def
        present_def fillna_mean_def mean_def MinMaxScaler_fit_transform_def)
  from a b c d e show ?thesis by simp
qed
end
